theory Spec2Isabelle
  imports
    Main
    "HOL-Library.AList"
    "HOL-Library.Char_ord"
    "HOL-Library.List_Lexorder"
    "HOL-Library.Product_Lexorder"
    "HOL-Library.Multiset"
begin

section \<open>Strings\<close>

text \<open>
  The script runs with \<^verbatim>\<open>unicode_literals\<close> and reads every file through
  \<^verbatim>\<open>io.open(..., encoding='utf-8')\<close>, so all its strings are sequences of code points.
  They are modelled as \<^typ>\<open>string\<close>: the code points below 256. Strings are compared
  code point by code point, which is the order of \<^theory_text>\<open>List_Lexorder\<close> over
  \<^theory_text>\<open>Char_ord\<close>.
\<close>

text \<open>
  \<^verbatim>\<open>unicode.isspace\<close> on the code points below 256: TAB, LF, VT, FF, CR, the four
  separators FS, GS, RS, US, the space, NEL and the no-break space.
\<close>

definition isspace :: "char \<Rightarrow> bool" where
  "isspace c = (of_char c \<in> {9, 10, 11, 12, 13, 28, 29, 30, 31, 32, 133, 160 :: nat})"

text \<open>\<^verbatim>\<open>s.strip()\<close>: leading and trailing whitespace removed.\<close>

definition strip :: "string \<Rightarrow> string" where
  "strip s = rev (dropWhile isspace (rev (dropWhile isspace s)))"

text \<open>
  \<^verbatim>\<open>s.split(sep)\<close> for a separator of one character: the pieces between the
  separators, empty pieces included, so the result is never empty.
\<close>

fun split_chr :: "char \<Rightarrow> string \<Rightarrow> string list" where
  "split_chr sep [] = [[]]"
| "split_chr sep (c # cs) =
     (if c = sep then [] # split_chr sep cs
      else (c # hd (split_chr sep cs)) # tl (split_chr sep cs))"

text \<open>\<^verbatim>\<open>sep.join(xs)\<close>.\<close>

fun join :: "string \<Rightarrow> string list \<Rightarrow> string" where
  "join sep [] = []"
| "join sep [x] = x"
| "join sep (x # y # ys) = x @ sep @ join sep (y # ys)"

section \<open>The trait string codec\<close>

text \<open>
  \<^verbatim>\<open>
  def _split_traits(traits):
      return [x.strip() for x in traits.split('.') if x.strip()]
  \<close>
\<close>

definition split_traits :: "string \<Rightarrow> string list" where
  "split_traits traits = [strip x. x \<leftarrow> split_chr (CHR ''.'') traits, strip x \<noteq> []]"

text \<open>
  \<^verbatim>\<open>
  def _merge_traits(traits):
      if not traits:
          return ''
      return '. '.join(traits)+'.'
  \<close>
\<close>

definition merge_traits :: "string list \<Rightarrow> string" where
  "merge_traits traits = (if traits = [] then [] else join ''. '' traits @ ''.'')"

section \<open>JSON documents, errors and the file system\<close>

text \<open>
  Every JSON file the script reads is an array of objects, loaded with
  \<^verbatim>\<open>object_pairs_hook=OrderedDict\<close>. An object is an association list from field names
  to values in file order; the script reads and writes only the fields \<open>code\<close>,
  \<open>name\<close> and \<open>traits\<close>, whose values are strings, so values are strings here.
  \<open>d[k]\<close> is \<open>getitem\<close>; \<open>d[k] = v\<close> is \<^const>\<open>AList.update\<close>, which keeps the
  position of a key that is present and appends a new one, as an ordered dictionary does.
\<close>

type_synonym obj = "(string \<times> string) list"

datatype errno = ENOENT | ENOTDIR | EISDIR

datatype error =
    IOError string
  | KeyError string
  | ValueError string
  | OSError errno string
  | TypeError string
  | NotModelled

text \<open>
  \<open>IOError\<close> with a message is what the script raises itself; \<open>OSError\<close> is a failure of
  \<^verbatim>\<open>io.open\<close> or \<^verbatim>\<open>os.listdir\<close> with its errno and path; \<open>ValueError\<close> comes from
  unpacking a sequence of the wrong length; \<open>TypeError\<close> from comparing two values that
  have no order.
\<close>

definition getitem :: "obj \<Rightarrow> string \<Rightarrow> error + string" where
  "getitem d k = (case map_of d k of None \<Rightarrow> Inl (KeyError k) | Some v \<Rightarrow> Inr v)"

text \<open>
  A file holds either a JSON array of objects (kept parsed: \<^verbatim>\<open>json.dumps\<close> followed
  by \<^verbatim>\<open>json.load\<close> gives the array back) or plain text. How a JSON document reads as
  lines of text, and what \<^verbatim>\<open>json.load\<close> makes of plain text, is outside the model
  (\<open>NotModelled\<close>).

  The world is the part of the file system below the working directory, keyed by the
  path strings as the script builds them (components joined by single slashes, no
  normalization), together with the log of the paths opened for writing, in order.
\<close>

datatype content = Json "obj list" | Text string

datatype node = File content | Dir

record world =
  nodes :: "(string \<times> node) list"
  written :: "string list"

definition isfile :: "world \<Rightarrow> string \<Rightarrow> bool" where
  "isfile w p = (case map_of (nodes w) p of Some (File c) \<Rightarrow> True | _ \<Rightarrow> False)"

definition isdir :: "world \<Rightarrow> string \<Rightarrow> bool" where
  "isdir w p = (case map_of (nodes w) p of Some Dir \<Rightarrow> True | _ \<Rightarrow> False)"

text \<open>\<^verbatim>\<open>os.path.join(a, b)\<close> of \<^verbatim>\<open>posixpath\<close>.\<close>

definition path_join :: "string \<Rightarrow> string \<Rightarrow> string" where
  "path_join a b =
     (if b \<noteq> [] \<and> hd b = CHR ''/'' then b
      else if a = [] \<or> last a = CHR ''/'' then a @ b
      else a @ ''/'' @ b)"

text \<open>
  \<^verbatim>\<open>os.listdir(p)\<close>: the names directly below \<open>p\<close>, in the order the world holds them
  (the order of a directory listing is arbitrary).
\<close>

definition child_name :: "string \<Rightarrow> string \<Rightarrow> string list" where
  "child_name p k =
     (let pre = path_join p []; n = drop (length pre) k
      in if take (length pre) k = pre \<and> n \<noteq> [] \<and> CHR ''/'' \<notin> set n then [n] else [])"

definition listdir :: "world \<Rightarrow> string \<Rightarrow> error + string list" where
  "listdir w p =
     (case map_of (nodes w) p of
        None \<Rightarrow> Inl (OSError ENOENT p)
      | Some (File c) \<Rightarrow> Inl (OSError ENOTDIR p)
      | Some Dir \<Rightarrow> Inr (concat (map (child_name p) (map fst (nodes w)))))"

text \<open>\<^verbatim>\<open>s.rfind(c)\<close>: the index of the last \<open>c\<close>, or \<open>-1\<close>.\<close>

definition rfind :: "char \<Rightarrow> string \<Rightarrow> int" where
  "rfind c s =
     (if c \<in> set s then int (length s) - 1 - int (length (takeWhile (\<lambda>x. x \<noteq> c) (rev s)))
      else - 1)"

text \<open>
  \<^verbatim>\<open>os.path.splitext(p)[-1]\<close>: the extension starts at the last dot of the last
  component, unless only dots stand before it there.
  \<^verbatim>\<open>
  sepIndex = p.rfind(sep)
  dotIndex = p.rfind(extsep)
  if dotIndex > sepIndex:
      filenameIndex = sepIndex + 1
      while filenameIndex < dotIndex:
          if p[filenameIndex:filenameIndex+1] != extsep:
              return p[:dotIndex], p[dotIndex:]
          filenameIndex += 1
  return p, p[:0]
  \<close>
\<close>

definition splitext_ext :: "string \<Rightarrow> string" where
  "splitext_ext p =
     (let sepIndex = rfind (CHR ''/'') p; dotIndex = rfind (CHR ''.'') p
      in if dotIndex > sepIndex \<and>
            (\<exists>c \<in> set (take (nat (dotIndex - (sepIndex + 1))) (drop (nat (sepIndex + 1)) p)).
               c \<noteq> CHR ''.'')
         then drop (nat dotIndex) p else [])"

text \<open>\<^verbatim>\<open>s.lower()\<close> on the code points below 256.\<close>

definition lower_chr :: "char \<Rightarrow> char" where
  "lower_chr c =
     (let n = of_char c :: nat
      in if (65 \<le> n \<and> n \<le> 90) \<or> (192 \<le> n \<and> n \<le> 222 \<and> n \<noteq> 215)
         then char_of (n + 32) else c)"

definition lower :: "string \<Rightarrow> string" where
  "lower s = map lower_chr s"

definition is_json_name :: "string \<Rightarrow> bool" where
  "is_json_name p = (lower (splitext_ext p) = ''.json'')"

text \<open>\<^verbatim>\<open>json.load(io.open(p, encoding='utf-8'), object_pairs_hook=OrderedDict)\<close>.\<close>

definition read_json :: "world \<Rightarrow> string \<Rightarrow> error + obj list" where
  "read_json w p =
     (case map_of (nodes w) p of
        None \<Rightarrow> Inl (OSError ENOENT p)
      | Some Dir \<Rightarrow> Inl (OSError EISDIR p)
      | Some (File (Text s)) \<Rightarrow> Inl NotModelled
      | Some (File (Json d)) \<Rightarrow> Inr d)"

text \<open>
  \<^verbatim>\<open>io.open(p, 'w', encoding='utf-8')\<close> followed by one \<^verbatim>\<open>fp.write\<close> of the whole
  content: a file that exists is replaced, and a new one is created when the directory
  it lies in exists (a path without a slash lies in the working directory).
\<close>

definition write_file :: "world \<Rightarrow> string \<Rightarrow> content \<Rightarrow> error + world" where
  "write_file w p c =
     (if isdir w p then Inl (OSError EISDIR p)
      else if \<not> isfile w p \<and> CHR ''/'' \<in> set p \<and>
              \<not> isdir w (take (nat (rfind (CHR ''/'') p)) p)
      then Inl (OSError ENOENT p)
      else Inr (w\<lparr>nodes := AList.update p (File c) (nodes w), written := written w @ [p]\<rparr>))"

definition PACK_PATH :: string where
  "PACK_PATH = ''pack''"

definition TRANSLATION_PATH :: string where
  "TRANSLATION_PATH = ''translations''"

definition TRAITS_FILENAME :: string where
  "TRAITS_FILENAME = ''traits.json''"

section \<open>File discovery\<close>

text \<open>
  \<^verbatim>\<open>
  def get_json_files(path, cycles=None):
      if not os.path.isdir(path):
          raise IOError('%s is not directory (when parsing json)'%path)
      json_files = []
      if not cycles:
          cycles = os.listdir(path)
      for cycle in cycles:
          if os.path.isfile(cycle) and os.path.splitext(cycle)[-1].lower() == '.json':
              json_files.append(cycle)
              continue
          for pack in os.listdir(os.path.join(path, cycle)):
              if os.path.splitext(pack)[-1].lower() == '.json':
                  json_files.append(os.path.join(cycle, pack))
      return json_files
  \<close>
  The test \<^verbatim>\<open>os.path.isfile(cycle)\<close> is given the bare entry name, which the system
  resolves against the working directory, not against \<open>path\<close>.
\<close>

fun collect_json_files :: "world \<Rightarrow> string \<Rightarrow> string list \<Rightarrow> string list \<Rightarrow> error + string list" where
  "collect_json_files w path [] json_files = Inr json_files"
| "collect_json_files w path (cycle # cycles) json_files =
     (if isfile w cycle \<and> is_json_name cycle
      then collect_json_files w path cycles (json_files @ [cycle])
      else (case listdir w (path_join path cycle) of
              Inl e \<Rightarrow> Inl e
            | Inr packs \<Rightarrow>
                collect_json_files w path cycles
                  (json_files @ [path_join cycle pack. pack \<leftarrow> packs, is_json_name pack])))"

definition get_json_files :: "world \<Rightarrow> string \<Rightarrow> string list option \<Rightarrow> error + string list" where
  "get_json_files w path cycles =
     (if \<not> isdir w path then Inl (IOError (path @ '' is not directory (when parsing json)''))
      else (case (case cycles of
                    None \<Rightarrow> listdir w path
                  | Some cs \<Rightarrow> if cs = [] then listdir w path else Inr cs) of
              Inl e \<Rightarrow> Inl e
            | Inr cs \<Rightarrow> collect_json_files w path cs []))"

section \<open>Master trait extraction\<close>

text \<open>
  Every operation returns the exception it raised, if any, and the world it leaves.

  \<^verbatim>\<open>
  def make_placeholder():
      json_files = get_json_files(PACK_PATH)
      traits = set()
      for json_file in json_files:
          with io.open(os.path.join(PACK_PATH, json_file), encoding='utf-8') as fp:
              data = json.load(fp, object_pairs_hook=OrderedDict)
          for card in data:
              if 'traits' not in card:
                  continue
              traits.update(_split_traits(card['traits']))
      traits = sorted(list(traits))
      data = [{'code': x, 'name': x} for x in traits]
      with io.open(TRAITS_FILENAME, 'w', encoding='utf-8') as fp:
          fp.write(json.dumps(data, ensure_ascii=False, indent=4))
  \<close>
  The set \<open>traits\<close> is a list without duplicates (\<open>traits.update\<close> is a fold of
  \<^const>\<open>List.insert\<close>); the order a set is listed in does not show after \<open>sorted\<close>.
\<close>

fun card_traits :: "obj list \<Rightarrow> string list \<Rightarrow> string list" where
  "card_traits [] traits = traits"
| "card_traits (card1 # data) traits =
     (case map_of card1 ''traits'' of
        None \<Rightarrow> card_traits data traits
      | Some t \<Rightarrow> card_traits data (fold List.insert (split_traits t) traits))"

fun collect_traits :: "world \<Rightarrow> string list \<Rightarrow> string list \<Rightarrow> error + string list" where
  "collect_traits w [] traits = Inr traits"
| "collect_traits w (json_file # json_files) traits =
     (case read_json w (path_join PACK_PATH json_file) of
        Inl e \<Rightarrow> Inl e
      | Inr data \<Rightarrow> collect_traits w json_files (card_traits data traits))"

definition make_placeholder :: "world \<Rightarrow> error option \<times> world" where
  "make_placeholder w =
     (case get_json_files w PACK_PATH None of
        Inl e \<Rightarrow> (Some e, w)
      | Inr json_files \<Rightarrow>
          (case collect_traits w json_files [] of
             Inl e \<Rightarrow> (Some e, w)
           | Inr traits \<Rightarrow>
               (case write_file w TRAITS_FILENAME
                       (Json [[(''code'', x), (''name'', x)]. x \<leftarrow> sort traits]) of
                  Inl e \<Rightarrow> (Some e, w)
                | Inr w' \<Rightarrow> (None, w'))))"

section \<open>Placeholder seeding\<close>

text \<open>\<^verbatim>\<open>[x['code'] for x in xs]\<close>.\<close>

fun codes_of :: "obj list \<Rightarrow> error + string list" where
  "codes_of [] = Inr []"
| "codes_of (x # xs) =
     (case getitem x ''code'' of
        Inl e \<Rightarrow> Inl e
      | Inr c \<Rightarrow> (case codes_of xs of Inl e \<Rightarrow> Inl e | Inr cs \<Rightarrow> Inr (c # cs)))"

text \<open>
  \<^verbatim>\<open>
  for item in data:
      if item['code'] not in trans_codes:
          trans_data.append(item)
  \<close>
\<close>

fun append_new :: "string list \<Rightarrow> obj list \<Rightarrow> obj list \<Rightarrow> error + obj list" where
  "append_new trans_codes [] trans_data = Inr trans_data"
| "append_new trans_codes (item # data) trans_data =
     (case getitem item ''code'' of
        Inl e \<Rightarrow> Inl e
      | Inr c \<Rightarrow>
          append_new trans_codes data
            (if c \<notin> set trans_codes then trans_data @ [item] else trans_data))"

text \<open>
  \<^verbatim>\<open>xs.sort(key=lambda x: x['code'])\<close>: the keys are taken first, then the list is
  sorted by them, stably.
\<close>

definition sort_by_code :: "obj list \<Rightarrow> error + obj list" where
  "sort_by_code xs =
     (case codes_of xs of
        Inl e \<Rightarrow> Inl e
      | Inr cs \<Rightarrow> Inr (map snd (sort_key fst (zip cs xs))))"

text \<open>
  \<^verbatim>\<open>
  def update_placeholder(code):
      if not os.path.isfile(TRAITS_FILENAME):
          raise IOError('traits file not found.')
      if not os.path.isdir('%s/%s'%(TRANSLATION_PATH, code)):
          raise IOError('language code(%s) is not found.'%code)
      trans_traits_path = '%s/%s/%s'%(TRANSLATION_PATH, code, TRAITS_FILENAME)
      trans_data = None
      if os.path.isfile(trans_traits_path):
          with io.open(trans_traits_path, encoding='utf-8') as fp:
              trans_data = json.load(fp, object_pairs_hook=OrderedDict)
      if not trans_data:
          trans_data = []
      trans_codes = [x['code'] for x in trans_data]
      with io.open(TRAITS_FILENAME, encoding='utf-8') as fp:
          data = json.load(fp, object_pairs_hook=OrderedDict)
      for item in data:
          if item['code'] not in trans_codes:
              trans_data.append(item)
      trans_data.sort(key=lambda x: x['code'])
      with io.open(trans_traits_path, 'w', encoding='utf-8') as fp:
          fp.write(json.dumps(trans_data, ensure_ascii=False, indent=4))
  \<close>
\<close>

definition trans_traits_path :: "string \<Rightarrow> string" where
  "trans_traits_path code = TRANSLATION_PATH @ ''/'' @ code @ ''/'' @ TRAITS_FILENAME"

definition update_placeholder :: "world \<Rightarrow> string \<Rightarrow> error option \<times> world" where
  "update_placeholder w code =
     (if \<not> isfile w TRAITS_FILENAME then (Some (IOError ''traits file not found.''), w)
      else if \<not> isdir w (TRANSLATION_PATH @ ''/'' @ code)
      then (Some (IOError (''language code('' @ code @ '') is not found.'')), w)
      else
        (case (if isfile w (trans_traits_path code) then read_json w (trans_traits_path code)
               else Inr []) of
           Inl e \<Rightarrow> (Some e, w)
         | Inr trans_data \<Rightarrow>
         (case codes_of trans_data of
            Inl e \<Rightarrow> (Some e, w)
          | Inr trans_codes \<Rightarrow>
          (case read_json w TRAITS_FILENAME of
             Inl e \<Rightarrow> (Some e, w)
           | Inr data \<Rightarrow>
           (case append_new trans_codes data trans_data of
              Inl e \<Rightarrow> (Some e, w)
            | Inr trans_data1 \<Rightarrow>
            (case sort_by_code trans_data1 of
               Inl e \<Rightarrow> (Some e, w)
             | Inr trans_data2 \<Rightarrow>
             (case write_file w (trans_traits_path code) (Json trans_data2) of
                Inl e \<Rightarrow> (Some e, w)
              | Inr w' \<Rightarrow> (None, w'))))))))"

section \<open>Trait propagation\<close>

text \<open>
  \<^verbatim>\<open>
  for item in data:
      traits_map[item['code']] = item['name']
  \<close>
  An assignment evaluates its right-hand side first, so a missing \<open>name\<close> is reported
  before a missing \<open>code\<close>.
\<close>

fun code_name_dict :: "obj list \<Rightarrow> (string \<times> string) list \<Rightarrow> error + (string \<times> string) list" where
  "code_name_dict [] d = Inr d"
| "code_name_dict (item # data) d =
     (case getitem item ''name'' of
        Inl e \<Rightarrow> Inl e
      | Inr n \<Rightarrow>
          (case getitem item ''code'' of
             Inl e \<Rightarrow> Inl e
           | Inr c \<Rightarrow> code_name_dict data (AList.update c n d)))"

text \<open>\<^verbatim>\<open>[traits_map[x] for x in traits_en]\<close>.\<close>

fun lookup_all :: "(string \<times> string) list \<Rightarrow> string list \<Rightarrow> error + string list" where
  "lookup_all traits_map [] = Inr []"
| "lookup_all traits_map (x # xs) =
     (case getitem traits_map x of
        Inl e \<Rightarrow> Inl e
      | Inr n \<Rightarrow> (case lookup_all traits_map xs of Inl e \<Rightarrow> Inl e | Inr ns \<Rightarrow> Inr (n # ns)))"

text \<open>\<^verbatim>\<open>xs.index(x)\<close>; \<open>None\<close> is its \<open>ValueError\<close>.\<close>

fun index_of :: "'a list \<Rightarrow> 'a \<Rightarrow> nat option" where
  "index_of [] x = None"
| "index_of (y # ys) x = (if y = x then Some 0 else map_option Suc (index_of ys x))"

text \<open>
  The body of the loop over the translated cards; \<open>None\<close> is \<^verbatim>\<open>continue\<close>, \<open>Some\<close> the
  card after the assignment to its \<open>traits\<close>.
  \<^verbatim>\<open>
  if 'traits' not in item:
      continue
  try:
      item_en = data_en[code_en.index(item['code'])]
  except ValueError:
      continue
  if no_overwrite and item['traits'] != item_en['traits']:
      continue
  traits_en = _split_traits(item_en['traits'])
  traits = [traits_map[x] for x in traits_en]
  item['traits'] = _merge_traits(traits)
  changed = True
  \<close>
  \<open>code_en\<close> is \<open>[x['code'] for x in data_en]\<close>, so an index found in it is in range for
  \<open>data_en\<close>.
\<close>

definition update_item ::
  "(string \<times> string) list \<Rightarrow> obj list \<Rightarrow> string list \<Rightarrow> bool \<Rightarrow> obj \<Rightarrow> error + obj option" where
  "update_item traits_map data_en code_en no_overwrite item =
     (case map_of item ''traits'' of
        None \<Rightarrow> Inr None
      | Some item_traits \<Rightarrow>
      (case getitem item ''code'' of
         Inl e \<Rightarrow> Inl e
       | Inr c \<Rightarrow>
       (case index_of code_en c of
          None \<Rightarrow> Inr None
        | Some i \<Rightarrow>
        (case getitem (data_en ! i) ''traits'' of
           Inl e \<Rightarrow> Inl e
         | Inr traits_en \<Rightarrow>
             if no_overwrite \<and> item_traits \<noteq> traits_en then Inr None
             else
               (case lookup_all traits_map (split_traits traits_en) of
                  Inl e \<Rightarrow> Inl e
                | Inr traits \<Rightarrow>
                    Inr (Some (AList.update ''traits'' (merge_traits traits) item)))))))"

fun update_items ::
  "(string \<times> string) list \<Rightarrow> obj list \<Rightarrow> string list \<Rightarrow> bool \<Rightarrow> obj list \<Rightarrow> bool \<Rightarrow>
     error + obj list \<times> bool" where
  "update_items traits_map data_en code_en no_overwrite [] changed = Inr ([], changed)"
| "update_items traits_map data_en code_en no_overwrite (item # items) changed =
     (case update_item traits_map data_en code_en no_overwrite item of
        Inl e \<Rightarrow> Inl e
      | Inr None \<Rightarrow>
          (case update_items traits_map data_en code_en no_overwrite items changed of
             Inl e \<Rightarrow> Inl e
           | Inr (items', changed') \<Rightarrow> Inr (item # items', changed'))
      | Inr (Some item') \<Rightarrow>
          (case update_items traits_map data_en code_en no_overwrite items True of
             Inl e \<Rightarrow> Inl e
           | Inr (items', changed') \<Rightarrow> Inr (item' # items', changed')))"

definition path_trans :: "string \<Rightarrow> string \<Rightarrow> string" where
  "path_trans code file = path_join (path_join (path_join TRANSLATION_PATH code) PACK_PATH) file"

text \<open>
  The body of the loop over the files.
  \<^verbatim>\<open>
  path_trans = os.path.join(TRANSLATION_PATH, code, PACK_PATH, file)
  with io.open(os.path.join(PACK_PATH, file), encoding='utf-8') as fp:
      data_en = json.load(fp, object_pairs_hook=OrderedDict)
  with io.open(path_trans, encoding='utf-8') as fp:
      data_trans = json.load(fp, object_pairs_hook=OrderedDict)
  code_en = [x['code'] for x in data_en]
  changed = False
  for item in data_trans:
      ...
  if changed:
      with io.open(path_trans, 'w', encoding='utf-8') as fp:
          fp.write(json.dumps(data_trans, ensure_ascii=False, indent=4))
  \<close>
\<close>

definition update_file ::
  "(string \<times> string) list \<Rightarrow> string \<Rightarrow> bool \<Rightarrow> world \<Rightarrow> string \<Rightarrow> error + world" where
  "update_file traits_map code no_overwrite w file =
     (case read_json w (path_join PACK_PATH file) of
        Inl e \<Rightarrow> Inl e
      | Inr data_en \<Rightarrow>
      (case read_json w (path_trans code file) of
         Inl e \<Rightarrow> Inl e
       | Inr data_trans \<Rightarrow>
       (case codes_of data_en of
          Inl e \<Rightarrow> Inl e
        | Inr code_en \<Rightarrow>
        (case update_items traits_map data_en code_en no_overwrite data_trans False of
           Inl e \<Rightarrow> Inl e
         | Inr (data_trans', changed) \<Rightarrow>
             if changed then write_file w (path_trans code file) (Json data_trans')
             else Inr w))))"

fun update_files ::
  "(string \<times> string) list \<Rightarrow> string \<Rightarrow> bool \<Rightarrow> world \<Rightarrow> string list \<Rightarrow> error option \<times> world" where
  "update_files traits_map code no_overwrite w [] = (None, w)"
| "update_files traits_map code no_overwrite w (file # files) =
     (case update_file traits_map code no_overwrite w file of
        Inl e \<Rightarrow> (Some e, w)
      | Inr w' \<Rightarrow> update_files traits_map code no_overwrite w' files)"

text \<open>
  \<^verbatim>\<open>
  def update_traits(code, cycles=None, no_overwrite=True):
      with io.open('%s/%s/%s'%(TRANSLATION_PATH, code, TRAITS_FILENAME), encoding='utf-8') as fp:
          data = json.load(fp, object_pairs_hook=OrderedDict)
      traits_map = {}
      for item in data:
          traits_map[item['code']] = item['name']
      jsons = [x for x in get_json_files('%s/%s/%s'%(TRANSLATION_PATH, code, PACK_PATH), cycles)
               if os.path.isfile(os.path.join(PACK_PATH, x))]
      if not json:
          raise IOError('no proper json files')
      for file in jsons:
          ...
  \<close>
  The guard tests \<open>json\<close>, the module imported at the top of the script, not the list
  \<open>jsons\<close>; a module is true.
\<close>

definition json_module :: bool where
  "json_module = True"

definition update_traits ::
  "world \<Rightarrow> string \<Rightarrow> string list option \<Rightarrow> bool \<Rightarrow> error option \<times> world" where
  "update_traits w code cycles no_overwrite =
     (case read_json w (trans_traits_path code) of
        Inl e \<Rightarrow> (Some e, w)
      | Inr data \<Rightarrow>
      (case code_name_dict data [] of
         Inl e \<Rightarrow> (Some e, w)
       | Inr traits_map \<Rightarrow>
       (case get_json_files w (TRANSLATION_PATH @ ''/'' @ code @ ''/'' @ PACK_PATH) cycles of
          Inl e \<Rightarrow> (Some e, w)
        | Inr found \<Rightarrow>
            (let jsons = [x \<leftarrow> found. isfile w (path_join PACK_PATH x)]
             in if \<not> json_module then (Some (IOError ''no proper json files''), w)
                else update_files traits_map code no_overwrite w jsons))))"

section \<open>The text bridge\<close>

definition TAB :: char where
  "TAB = CHR 0x09"

definition LF :: char where
  "LF = CHR 0x0A"

definition CR :: char where
  "CR = CHR 0x0D"

text \<open>
  \<^verbatim>\<open>
  def json2txt(path_json, path_text):
      with io.open(path_json, encoding='utf-8') as fp:
          data = json.load(fp, object_pairs_hook=OrderedDict)
      fp = io.open(path_text, 'w', encoding='utf-8')
      for item in data:
          fp.write('%s\t%s\n'%(item['code'], item['name']))
      fp.close()
  \<close>
  The text file is opened before the loop, so an entry without \<open>code\<close> or \<open>name\<close>
  leaves the lines written before it.
\<close>

fun format_lines :: "obj list \<Rightarrow> string \<Rightarrow> error option \<times> string" where
  "format_lines [] out = (None, out)"
| "format_lines (item # data) out =
     (case getitem item ''code'' of
        Inl e \<Rightarrow> (Some e, out)
      | Inr c \<Rightarrow>
          (case getitem item ''name'' of
             Inl e \<Rightarrow> (Some e, out)
           | Inr n \<Rightarrow> format_lines data (out @ c @ [TAB] @ n @ [LF])))"

definition json2txt :: "world \<Rightarrow> string \<Rightarrow> string \<Rightarrow> error option \<times> world" where
  "json2txt w path_json path_text =
     (case read_json w path_json of
        Inl e \<Rightarrow> (Some e, w)
      | Inr data \<Rightarrow>
          (case format_lines data [] of
             (err, out) \<Rightarrow>
               (case write_file w path_text (Text out) of
                  Inl e \<Rightarrow> (Some e, w)
                | Inr w' \<Rightarrow> (err, w'))))"

text \<open>
  Reading a file opened in text mode: \<open>CR LF\<close> and a lone \<open>CR\<close> are read as \<open>LF\<close>
  (universal newlines), and iterating the file gives its lines, each with its \<open>LF\<close>.
\<close>

fun universal_newlines :: "string \<Rightarrow> string" where
  "universal_newlines [] = []"
| "universal_newlines [c] = (if c = CR then [LF] else [c])"
| "universal_newlines (c # d # cs) =
     (if c = CR \<and> d = LF then LF # universal_newlines cs
      else if c = CR then LF # universal_newlines (d # cs)
      else c # universal_newlines (d # cs))"

fun readlines :: "string \<Rightarrow> string list" where
  "readlines [] = []"
| "readlines (c # cs) =
     (if c = LF then [LF] # readlines cs
      else (case readlines cs of [] \<Rightarrow> [[c]] | l # ls \<Rightarrow> (c # l) # ls))"

definition read_lines :: "world \<Rightarrow> string \<Rightarrow> error + string list" where
  "read_lines w p =
     (case map_of (nodes w) p of
        None \<Rightarrow> Inl (OSError ENOENT p)
      | Some Dir \<Rightarrow> Inl (OSError EISDIR p)
      | Some (File (Json d)) \<Rightarrow> Inl NotModelled
      | Some (File (Text s)) \<Rightarrow> Inr (readlines (universal_newlines s)))"

text \<open>
  The body of the loop over the lines.
  \<^verbatim>\<open>
  if not line.strip():
      continue
  code, name = line.split('\t')
  code, name = code.strip(), name.strip()
  print(code, name)
  if code in data:
      data[code] = name
  \<close>
  Unpacking needs exactly two pieces. What \<open>print\<close> writes to the standard output is
  not modelled.
\<close>

definition txt2json_line :: "(string \<times> string) list \<Rightarrow> string \<Rightarrow> error + (string \<times> string) list" where
  "txt2json_line data line =
     (if strip line = [] then Inr data
      else (case split_chr TAB line of
              [code, name] \<Rightarrow>
                Inr (if map_of data (strip code) \<noteq> None
                     then AList.update (strip code) (strip name) data else data)
            | [code] \<Rightarrow> Inl (ValueError ''need more than 1 value to unpack'')
            | _ \<Rightarrow> Inl (ValueError ''too many values to unpack'')))"

fun txt2json_lines :: "(string \<times> string) list \<Rightarrow> string list \<Rightarrow> error + (string \<times> string) list" where
  "txt2json_lines data [] = Inr data"
| "txt2json_lines data (line # lines) =
     (case txt2json_line data line of
        Inl e \<Rightarrow> Inl e
      | Inr data' \<Rightarrow> txt2json_lines data' lines)"

text \<open>
  \<^verbatim>\<open>
  def txt2json(path_json, path_text):
      data = {}
      with io.open(path_json, encoding='utf-8') as fp:
          temp = json.load(fp, object_pairs_hook=OrderedDict)
      for item in temp:
          data[item['code']] = item['name']
      fp = io.open(path_text, encoding='utf-8')
      for line in fp:
          ...
      fp.close()
      data = [{'code': key, 'name': value} for key, value in data.items()]
      data.sort()
      with io.open(path_json, 'w', encoding='utf-8') as fp:
          fp.write(json.dumps(data, ensure_ascii=False, indent=4))
  \<close>
\<close>

text \<open>
  The script runs under Python 2 (it is written for it:
  \<^verbatim>\<open>from __future__ import unicode_literals\<close>) and under Python 3, and the two differ at
  \<open>data.sort()\<close>, which sorts a list of dictionaries.

  Python 2 orders dictionaries: two dictionaries with the keys \<open>code\<close> and \<open>name\<close>
  compare by the value of \<open>code\<close>, the smaller key, and by the value of \<open>name\<close> when the
  codes agree. That is the order of the pairs (code, name), so the pairs are sorted and
  the dictionaries built from them.

  Python 3 does not order dictionaries: the first comparison raises \<open>TypeError\<close>, and
  sorting a list of two or more entries makes one. A list of at most one entry is sorted
  without a comparison.

  The keys of \<open>data\<close> are distinct, hence the order \<open>data.items()\<close> lists them in does
  not show in the result. The texts of the two \<open>ValueError\<close>s of the loop are the ones of
  Python 2; Python 3 words them differently.
\<close>

datatype python = Python2 | Python3

definition QUOTE :: char where
  "QUOTE = CHR 0x27"

definition dict_order_message :: string where
  "dict_order_message =
     QUOTE # ''<'' @ QUOTE # '' not supported between instances of '' @
     QUOTE # ''dict'' @ QUOTE # '' and '' @ QUOTE # ''dict'' @ [QUOTE]"

definition sort_entries :: "python \<Rightarrow> (string \<times> string) list \<Rightarrow> error + obj list" where
  "sort_entries py data =
     (if py = Python3 \<and> 2 \<le> length data then Inl (TypeError dict_order_message)
      else Inr [[(''code'', k), (''name'', v)]. (k, v) \<leftarrow> sort data])"

definition txt2json :: "python \<Rightarrow> world \<Rightarrow> string \<Rightarrow> string \<Rightarrow> error option \<times> world" where
  "txt2json py w path_json path_text =
     (case read_json w path_json of
        Inl e \<Rightarrow> (Some e, w)
      | Inr temp \<Rightarrow>
      (case code_name_dict temp [] of
         Inl e \<Rightarrow> (Some e, w)
       | Inr data \<Rightarrow>
       (case read_lines w path_text of
          Inl e \<Rightarrow> (Some e, w)
        | Inr lines \<Rightarrow>
        (case txt2json_lines data lines of
           Inl e \<Rightarrow> (Some e, w)
         | Inr data' \<Rightarrow>
         (case sort_entries py data' of
            Inl e \<Rightarrow> (Some e, w)
          | Inr sorted_data \<Rightarrow>
          (case write_file w path_json (Json sorted_data) of
             Inl e \<Rightarrow> (Some e, w)
           | Inr w' \<Rightarrow> (None, w')))))))"

section \<open>The entry point\<close>

text \<open>
  \<^verbatim>\<open>
  def main():
      make_placeholder()
      update_placeholder('ko')
      update_traits('ko')
  \<close>
\<close>

definition main :: "world \<Rightarrow> error option \<times> world" where
  "main w =
     (case make_placeholder w of
        (Some e, w') \<Rightarrow> (Some e, w')
      | (None, w1) \<Rightarrow>
          (case update_placeholder w1 ''ko'' of
             (Some e, w') \<Rightarrow> (Some e, w')
           | (None, w2) \<Rightarrow> update_traits w2 ''ko'' None True))"

section \<open>Notions used in the statements\<close>

text \<open>The first English record with a given code, if there is one.\<close>

definition english_record :: "obj list \<Rightarrow> string \<Rightarrow> obj option" where
  "english_record data_en c = List.find (\<lambda>e. map_of e ''code'' = Some c) data_en"

text \<open>
  A translated card is recomputed when it has a \<open>traits\<close> field, its code is the code of
  an English record, and the overwrite guard lets it through: overwriting is allowed, or
  its traits string equals that of the English record.
\<close>

definition recomputed :: "obj list \<Rightarrow> bool \<Rightarrow> obj \<Rightarrow> bool" where
  "recomputed data_en no_overwrite item =
     (case map_of item ''traits'' of
        None \<Rightarrow> False
      | Some t \<Rightarrow>
          (case map_of item ''code'' of
             None \<Rightarrow> False
           | Some c \<Rightarrow>
               (case english_record data_en c of
                  None \<Rightarrow> False
                | Some e \<Rightarrow> \<not> no_overwrite \<or> map_of e ''traits'' = Some t)))"

text \<open>
  A recomputed card lacks a translation when some trait code of its English record has
  no entry in the language's dictionary.
\<close>

definition lacks_translation :: "(string \<times> string) list \<Rightarrow> obj list \<Rightarrow> bool \<Rightarrow> obj \<Rightarrow> bool" where
  "lacks_translation traits_map data_en no_overwrite item =
     (recomputed data_en no_overwrite item \<and>
      (case map_of item ''code'' of
         None \<Rightarrow> False
       | Some c \<Rightarrow>
           (case english_record data_en c of
              None \<Rightarrow> False
            | Some e \<Rightarrow>
                (case map_of e ''traits'' of
                   None \<Rightarrow> False
                 | Some t_en \<Rightarrow> \<exists>x \<in> set (split_traits t_en). map_of traits_map x = None))))"

text \<open>One pass of the loop body takes a card to the card after it.\<close>

definition item_step ::
  "(string \<times> string) list \<Rightarrow> obj list \<Rightarrow> string list \<Rightarrow> bool \<Rightarrow> obj \<Rightarrow> obj \<Rightarrow> bool" where
  "item_step traits_map data_en code_en no_overwrite item item' =
     (update_item traits_map data_en code_en no_overwrite item = Inr None \<and> item' = item \<or>
      update_item traits_map data_en code_en no_overwrite item = Inr (Some item'))"

text \<open>
  The trait universe: every name that splitting the \<open>traits\<close> of some card of some
  listed English pack file yields.
\<close>

definition trait_universe :: "world \<Rightarrow> string list \<Rightarrow> string set" where
  "trait_universe w json_files =
     {t. \<exists>f \<in> set json_files. \<exists>data. read_json w (path_join PACK_PATH f) = Inr data \<and>
           (\<exists>c \<in> set data. \<exists>s. map_of c ''traits'' = Some s \<and> t \<in> set (split_traits s))}"

text \<open>The code of a trait entry that has one.\<close>

definition code_of :: "obj \<Rightarrow> string" where
  "code_of x = the (map_of x ''code'')"

text \<open>
  The name of a trait entry that has one. A string is plain when it holds no tab and no
  line break and has no whitespace at either end. \<open>line_of\<close> is the line \<open>json2txt\<close>
  writes for an entry.
\<close>

definition name_of :: "obj \<Rightarrow> string" where
  "name_of x = the (map_of x ''name'')"

definition plain :: "string \<Rightarrow> bool" where
  "plain s = (TAB \<notin> set s \<and> LF \<notin> set s \<and> CR \<notin> set s \<and> strip s = s)"

definition line_of :: "obj \<Rightarrow> string" where
  "line_of item = code_of item @ [TAB] @ name_of item @ [LF]"

section \<open>Example data\<close>

definition w_round :: world where
  "w_round = \<lparr>nodes =
      [(''traits.json'', File (Json [[(''code'', ''Item''), (''name'', ''Gegenstand'')],
                                     [(''code'', ''Ally''), (''name'', ''Verbuendeter'')]]))],
     written = []\<rparr>"

definition w_single :: world where
  "w_single = \<lparr>nodes =
      [(''traits.json'', File (Json [[(''code'', ''Item''), (''name'', ''Gegenstand'')]]))],
     written = []\<rparr>"

definition w_pad :: world where
  "w_pad = \<lparr>nodes =
      [(''traits.json'', File (Json [[(''code'', ''Item''), (''name'', '' Gegenstand'')]]))],
     written = []\<rparr>"

definition w_seed :: world where
  "w_seed = \<lparr>nodes = [(''translations'', Dir), (''translations/ko'', Dir),
      (''traits.json'', File (Json [[(''code'', ''Ally''), (''name'', ''Ally'')],
                                    [(''code'', ''Item''), (''name'', ''Item'')],
                                    [(''code'', ''Weapon''), (''name'', ''Weapon'')]])),
      (''translations/ko/traits.json'',
         File (Json [[(''code'', ''Item''), (''name'', ''Gegenstand'')]]))],
     written = []\<rparr>"

definition w_seeded :: world where
  "w_seeded = \<lparr>nodes = [(''translations'', Dir), (''translations/ko'', Dir),
      (''traits.json'', File (Json [[(''code'', ''Ally''), (''name'', ''Ally'')],
                                    [(''code'', ''Item''), (''name'', ''Item'')],
                                    [(''code'', ''Weapon''), (''name'', ''Weapon'')]])),
      (''translations/ko/traits.json'',
         File (Json [[(''code'', ''Ally''), (''name'', ''Ally'')],
                     [(''code'', ''Item''), (''name'', ''Gegenstand'')],
                     [(''code'', ''Weapon''), (''name'', ''Weapon'')]]))],
     written = [''translations/ko/traits.json'']\<rparr>"

definition w_stray :: world where
  "w_stray = \<lparr>nodes = [(''pack'', Dir), (''pack/core'', Dir),
      (''pack/core/a.json'', File (Json [])), (''pack/core/b.json'', File (Json [])),
      (''pack/stray.json'', File (Json []))],
     written = []\<rparr>"

definition w_two :: world where
  "w_two = \<lparr>nodes = [(''pack'', Dir), (''pack/core'', Dir),
      (''pack/core/a.json'', File (Json [[(''code'', ''01001''), (''traits'', ''Item.'')],
                                         [(''code'', ''01003'')]])),
      (''pack/core/b.json'',
         File (Json [[(''code'', ''01002''), (''traits'', ''Item. Weapon.'')]]))],
     written = []\<rparr>"

definition ex_en :: "obj list" where
  "ex_en = [[(''code'', ''01001''), (''traits'', ''Item. Weapon.'')],
            [(''code'', ''01002''), (''traits'', ''Ally.'')]]"

definition ex_map :: "(string \<times> string) list" where
  "ex_map = [(''Ally'', ''Verbuendeter''), (''Item'', ''Gegenstand''), (''Weapon'', ''Waffe'')]"

definition ex_trans :: "obj list" where
  "ex_trans = [[(''code'', ''01001''), (''traits'', ''Item. Weapon.'')],
               [(''code'', ''01002''), (''traits'', ''Verbuendeter. Miskatonic.'')]]"

definition ex_result :: "obj list" where
  "ex_result = [[(''code'', ''01001''), (''traits'', ''Gegenstand. Waffe.'')],
                [(''code'', ''01002''), (''traits'', ''Verbuendeter. Miskatonic.'')]]"

definition ex_dirs :: "(string \<times> node) list" where
  "ex_dirs = [(''pack'', Dir), (''pack/core'', Dir), (''translations'', Dir),
     (''translations/ko'', Dir), (''translations/ko/pack'', Dir),
     (''translations/ko/pack/core'', Dir)]"

definition w_same :: world where
  "w_same = \<lparr>nodes = ex_dirs @
     [(''pack/core/a.json'', File (Json [[(''code'', ''01001''), (''traits'', ''Item.'')]])),
      (''translations/ko/traits.json'', File (Json [[(''code'', ''Item''), (''name'', ''Item'')]])),
      (''translations/ko/pack/core/a.json'',
         File (Json [[(''code'', ''01001''), (''traits'', ''Item.'')]]))],
     written = []\<rparr>"

definition w_partial :: world where
  "w_partial = \<lparr>nodes = ex_dirs @
     [(''pack/core/a.json'', File (Json [[(''code'', ''01001''), (''traits'', ''Item.'')]])),
      (''pack/core/b.json'', File (Json [[(''code'', ''01002''), (''traits'', ''Item. Weapon.'')]])),
      (''translations/ko/traits.json'',
         File (Json [[(''code'', ''Item''), (''name'', ''Gegenstand'')]])),
      (''translations/ko/pack/core/a.json'',
         File (Json [[(''code'', ''01001''), (''traits'', ''Item.'')]])),
      (''translations/ko/pack/core/b.json'',
         File (Json [[(''code'', ''01002''), (''traits'', ''Item. Weapon.'')]]))],
     written = []\<rparr>"

definition w_nothing :: world where
  "w_nothing = \<lparr>nodes = ex_dirs @ [(''translations/ko/traits.json'', File (Json []))],
     written = []\<rparr>"

text \<open>The error of the guard in \<open>update_traits\<close>.\<close>

definition guard_error :: error where
  "guard_error = IOError ''no proper json files''"

definition w_tabs :: world where
  "w_tabs = \<lparr>nodes =
      [(''traits.json'', File (Json [[(''code'', ''Item''), (''name'', ''Item'')]])),
       (''traits.txt'', File (Text (''Item'' @ [TAB] @ ''Gegen'' @ [TAB] @ ''stand'' @ [LF])))],
     written = []\<rparr>"

section \<open>Properties of the codec\<close>

lemma split_chr_nonempty: "split_chr sep s \<noteq> []"
  by (induction s) auto

lemma split_chr_no_sep: "sep \<notin> set a \<Longrightarrow> split_chr sep a = [a]"
  by (induction a) auto

lemma split_chr_append:
  "sep \<notin> set a \<Longrightarrow> split_chr sep (a @ sep # rest) = a # split_chr sep rest"
  by (induction a) auto

lemma strip_Nil: "strip [] = []"
  by (simp add: strip_def)

lemma strip_space_Cons: "isspace c \<Longrightarrow> strip (c # s) = strip s"
  by (simp add: strip_def)

lemma isspace_blank: "isspace (CHR '' '')"
  by (simp add: isspace_def)

lemma split_dot_join:
  "ns \<noteq> [] \<Longrightarrow> \<forall>n\<in>set ns. CHR ''.'' \<notin> set n \<Longrightarrow>
   split_chr (CHR ''.'') (join ''. '' ns @ ''.'') =
     hd ns # map ((#) (CHR '' '')) (tl ns) @ [[]]"
proof (induction "''. ''" ns rule: join.induct)
  case 1
  then show ?case by simp
next
  case (2 x)
  then show ?case by (simp add: split_chr_append)
next
  case (3 x y ys)
  have "split_chr (CHR ''.'') (join ''. '' (y # ys) @ ''.'') =
          y # map ((#) (CHR '' '')) ys @ [[]]"
    using 3 by simp
  moreover have "CHR ''.'' \<notin> set x"
    using 3 by simp
  ultimately show ?case
    by (simp add: split_chr_append)
qed

lemma strip_pieces:
  assumes "\<forall>n\<in>set ns. n \<noteq> [] \<and> strip n = n"
  shows "[strip x. x \<leftarrow> map ((#) (CHR '' '')) ns, strip x \<noteq> []] = ns"
  using assms by (induction ns) (simp_all add: strip_space_Cons isspace_blank)

lemma split_merge_names:
  assumes "\<forall>n\<in>set ns. n \<noteq> [] \<and> CHR ''.'' \<notin> set n \<and> strip n = n"
  shows "split_traits (merge_traits ns) = ns"
proof (cases ns)
  case Nil
  then show ?thesis by (simp add: split_traits_def merge_traits_def strip_Nil)
next
  case (Cons n ms)
  have pieces: "split_chr (CHR ''.'') (join ''. '' ns @ ''.'') =
      n # map ((#) (CHR '' '')) ms @ [[]]"
    using split_dot_join [of ns] assms Cons by simp
  have rest: "[strip x. x \<leftarrow> map ((#) (CHR '' '')) ms, strip x \<noteq> []] = ms"
    using strip_pieces [of ms] assms Cons by simp
  have "strip n = n" "n \<noteq> []"
    using assms Cons by simp_all
  then show ?thesis
    using Cons pieces rest by (simp add: split_traits_def merge_traits_def strip_Nil)
qed

text \<open>
  C7. A string is in normalized form when it is empty or consists of names joined by
  \<open>''. ''\<close> with a trailing dot, each name non-empty, free of dots and equal to its own
  \<open>strip\<close>; these are exactly the strings \<open>merge_traits\<close> produces from such names.
  On every such string \<open>merge_traits\<close> after \<open>split_traits\<close> is the identity
  (\<open>split_traits\<close> gives the names back); the empty string splits to the empty list
  and the empty list merges to the empty string.
\<close>

theorem merge_split_normalized:
  "(\<forall>ns s. (\<forall>n\<in>set ns. n \<noteq> [] \<and> CHR ''.'' \<notin> set n \<and> strip n = n) \<longrightarrow>
      (s = merge_traits ns \<or> (ns \<noteq> [] \<and> s = join ''. '' ns @ ''.'')) \<longrightarrow>
      split_traits s = ns \<and> merge_traits (split_traits s) = s)
   \<and> split_traits [] = []
   \<and> merge_traits [] = []"
proof (intro conjI allI impI)
  fix ns s
  assume names: "\<forall>n\<in>set ns. n \<noteq> [] \<and> CHR ''.'' \<notin> set n \<and> strip n = n"
    and form: "s = merge_traits ns \<or> (ns \<noteq> [] \<and> s = join ''. '' ns @ ''.'')"
  from form have s: "s = merge_traits ns"
    by (auto simp: merge_traits_def)
  show "split_traits s = ns"
    using split_merge_names [OF names] s by simp
  then show "merge_traits (split_traits s) = s"
    using s by simp
next
  show "split_traits [] = []"
    by (simp add: split_traits_def strip_Nil)
next
  show "merge_traits [] = []"
    by (simp add: merge_traits_def)
qed

theorem merge_split_normalized_witness:
  "split_traits ''Item. Weapon.'' = [''Item'', ''Weapon'']
   \<and> merge_traits (split_traits ''Item. Weapon.'') = ''Item. Weapon.''
   \<and> merge_traits [''Item'', ''Weapon''] = ''Item. Weapon.''"
proof -
  have names: "\<forall>n\<in>set [''Item'', ''Weapon'']. n \<noteq> [] \<and> CHR ''.'' \<notin> set n \<and> strip n = n"
    by (simp add: strip_def isspace_def)
  have m: "merge_traits [''Item'', ''Weapon''] = ''Item. Weapon.''"
    by (simp add: merge_traits_def)
  have "''Item. Weapon.'' = merge_traits [''Item'', ''Weapon'']
      \<or> ([''Item'', ''Weapon''] \<noteq> [] \<and> ''Item. Weapon.'' = join ''. '' [''Item'', ''Weapon''] @ ''.'')"
    using m by simp
  with names merge_split_normalized show ?thesis
    using m by blast
qed

section \<open>Properties of trait propagation\<close>

lemma lookup_all_Inr:
  "lookup_all m xs = Inr ns \<Longrightarrow>
   ns = map (\<lambda>x. the (map_of m x)) xs \<and> set xs \<subseteq> dom (map_of m)"
  by (induction xs arbitrary: ns) (auto simp: getitem_def split: option.splits sum.splits)

lemma update_items_all2:
  "update_items m de ce no items ch = Inr (items', ch') \<Longrightarrow>
   list_all2 (item_step m de ce no) items items' \<and>
   (ch' \<longleftrightarrow> ch \<or> (\<exists>item\<in>set items. \<exists>x. update_item m de ce no item = Inr (Some x)))"
proof (induction items arbitrary: ch items')
  case Nil
  then show ?case by simp
next
  case (Cons item items)
  show ?case
  proof (cases "update_item m de ce no item")
    case (Inl e)
    with Cons.prems show ?thesis by simp
  next
    case (Inr r)
    show ?thesis
    proof (cases r)
      case None
      with Inr Cons.prems obtain rest where
        rest: "update_items m de ce no items ch = Inr (rest, ch')" "items' = item # rest"
        by (auto split: sum.splits prod.splits)
      from Cons.IH [OF rest(1)] rest(2) Inr None show ?thesis
        by (simp add: item_step_def)
    next
      case (Some x)
      with Inr Cons.prems obtain rest where
        rest: "update_items m de ce no items True = Inr (rest, ch')" "items' = x # rest"
        by (auto split: sum.splits prod.splits)
      from Cons.IH [OF rest(1)] rest(2) Inr Some show ?thesis
        by (simp add: item_step_def)
    qed
  qed
qed

lemma index_of_english:
  "codes_of de = Inr ce \<Longrightarrow> map_option ((!) de) (index_of ce c) = english_record de c"
proof (induction de arbitrary: ce)
  case Nil
  then show ?case by (simp add: english_record_def)
next
  case (Cons x xs)
  from Cons.prems obtain c0 cs where
    c0: "map_of x ''code'' = Some c0" "codes_of xs = Inr cs" "ce = c0 # cs"
    by (auto simp: getitem_def split: option.splits sum.splits)
  from Cons.IH [OF c0(2)] have "map_option ((!) xs) (index_of cs c) = english_record xs c" .
  then show ?case
    using c0 by (auto simp: english_record_def option.map_comp comp_def)
qed

lemma update_item_english:
  assumes "codes_of de = Inr ce"
  shows "update_item m de ce no item =
     (case map_of item ''traits'' of
        None \<Rightarrow> Inr None
      | Some t \<Rightarrow>
      (case map_of item ''code'' of
         None \<Rightarrow> Inl (KeyError ''code'')
       | Some c \<Rightarrow>
       (case english_record de c of
          None \<Rightarrow> Inr None
        | Some e \<Rightarrow>
        (case map_of e ''traits'' of
           None \<Rightarrow> Inl (KeyError ''traits'')
         | Some t_en \<Rightarrow>
             if no \<and> t \<noteq> t_en then Inr None
             else (case lookup_all m (split_traits t_en) of
                     Inl e \<Rightarrow> Inl e
                   | Inr ns \<Rightarrow> Inr (Some (AList.update ''traits'' (merge_traits ns) item)))))))"
proof (cases "map_of item ''traits''")
  case None
  then show ?thesis by (simp add: update_item_def)
next
  case t: (Some t)
  show ?thesis
  proof (cases "map_of item ''code''")
    case None
    with t show ?thesis by (simp add: update_item_def getitem_def)
  next
    case c: (Some c)
    from index_of_english [OF assms, of c]
    have "english_record de c = map_option ((!) de) (index_of ce c)" by simp
    with t c show ?thesis
      by (cases "index_of ce c") (simp_all add: update_item_def getitem_def split: option.splits)
  qed
qed

text \<open>
  C1. In the loop of \<open>update_traits\<close> over the cards of one translated file, run with
  overwriting disabled (\<open>no_overwrite = True\<close>) and without an exception: every card
  that has a \<open>traits\<close> field and whose code is the code of an English record (the
  first such record is taken, which has a \<open>traits\<close> field) is left unchanged when its
  traits string differs from the English one; otherwise its \<open>traits\<close> is set to
  \<open>merge_traits\<close> of the English traits, split by \<open>split_traits\<close> and mapped through
  the language's dictionary, every one of them having an entry there.
\<close>

theorem update_items_no_overwrite:
  assumes en: "codes_of data_en = Inr code_en"
    and run: "update_items traits_map data_en code_en True items changed = Inr (items', changed')"
  shows "length items' = length items \<and>
    (\<forall>j t c e.
       j < length items \<and>
       map_of (items ! j) ''traits'' = Some t \<and> map_of (items ! j) ''code'' = Some c \<and>
       english_record data_en c = Some e \<longrightarrow>
       (\<exists>t_en. map_of e ''traits'' = Some t_en \<and>
          (if t \<noteq> t_en then items' ! j = items ! j
           else set (split_traits t_en) \<subseteq> dom (map_of traits_map) \<and>
                items' ! j =
                  AList.update ''traits''
                    (merge_traits (map (\<lambda>x. the (map_of traits_map x)) (split_traits t_en)))
                    (items ! j))))"
proof (intro conjI allI impI)
  from update_items_all2 [OF run]
  have all2: "list_all2 (item_step traits_map data_en code_en True) items items'"
    by simp
  then show len: "length items' = length items"
    by (simp add: list_all2_lengthD)
  fix j t c e
  assume h: "j < length items \<and>
       map_of (items ! j) ''traits'' = Some t \<and> map_of (items ! j) ''code'' = Some c \<and>
       english_record data_en c = Some e"
  from all2 h have js: "item_step traits_map data_en code_en True (items ! j) (items' ! j)"
    by (simp add: list_all2_nthD)
  have step: "update_item traits_map data_en code_en True (items ! j) =
     (case map_of e ''traits'' of
        None \<Rightarrow> Inl (KeyError ''traits'')
      | Some t_en \<Rightarrow>
          if t \<noteq> t_en then Inr None
          else (case lookup_all traits_map (split_traits t_en) of
                  Inl e \<Rightarrow> Inl e
                | Inr ns \<Rightarrow> Inr (Some (AList.update ''traits'' (merge_traits ns) (items ! j)))))"
    using h by (simp add: update_item_english [OF en] split: option.splits)
  show "\<exists>t_en. map_of e ''traits'' = Some t_en \<and>
          (if t \<noteq> t_en then items' ! j = items ! j
           else set (split_traits t_en) \<subseteq> dom (map_of traits_map) \<and>
                items' ! j =
                  AList.update ''traits''
                    (merge_traits (map (\<lambda>x. the (map_of traits_map x)) (split_traits t_en)))
                    (items ! j))"
  proof (cases "map_of e ''traits''")
    case None
    with step js show ?thesis by (simp add: item_step_def)
  next
    case (Some t_en)
    show ?thesis
    proof (cases "t \<noteq> t_en")
      case True
      with Some step js show ?thesis by (simp add: item_step_def)
    next
      case False
      with Some step js obtain ns where
        ns: "lookup_all traits_map (split_traits t_en) = Inr ns"
          "items' ! j = AList.update ''traits'' (merge_traits ns) (items ! j)"
        by (auto simp: item_step_def split: sum.splits)
      from lookup_all_Inr [OF ns(1)] ns(2) Some False show ?thesis by simp
    qed
  qed
qed

theorem update_items_no_overwrite_witness:
  "codes_of ex_en = Inr [''01001'', ''01002''] \<and>
   update_items ex_map ex_en [''01001'', ''01002''] True ex_trans False = Inr (ex_result, True) \<and>
   length ex_result = length ex_trans \<and>
   ex_result ! 0 =
     AList.update ''traits''
       (merge_traits (map (\<lambda>x. the (map_of ex_map x)) (split_traits ''Item. Weapon.'')))
       (ex_trans ! 0) \<and>
   ex_result ! 1 = ex_trans ! 1"
proof -
  have en: "codes_of ex_en = Inr [''01001'', ''01002'']"
    by code_simp
  have run: "update_items ex_map ex_en [''01001'', ''01002''] True ex_trans False =
      Inr (ex_result, True)"
    by code_simp
  note general = update_items_no_overwrite [OF en run]
  have card0: "0 < length ex_trans \<and>
      map_of (ex_trans ! 0) ''traits'' = Some ''Item. Weapon.'' \<and>
      map_of (ex_trans ! 0) ''code'' = Some ''01001'' \<and>
      english_record ex_en ''01001'' = Some (ex_en ! 0)"
    by code_simp
  have card1: "1 < length ex_trans \<and>
      map_of (ex_trans ! 1) ''traits'' = Some ''Verbuendeter. Miskatonic.'' \<and>
      map_of (ex_trans ! 1) ''code'' = Some ''01002'' \<and>
      english_record ex_en ''01002'' = Some (ex_en ! 1)"
    by code_simp
  have en0: "map_of (ex_en ! 0) ''traits'' = Some ''Item. Weapon.''"
    by code_simp
  have en1: "map_of (ex_en ! 1) ''traits'' = Some ''Ally.''"
    by code_simp
  from general card0 have "\<exists>t_en. map_of (ex_en ! 0) ''traits'' = Some t_en \<and>
      (if ''Item. Weapon.'' \<noteq> t_en then ex_result ! 0 = ex_trans ! 0
       else set (split_traits t_en) \<subseteq> dom (map_of ex_map) \<and>
         ex_result ! 0 =
           AList.update ''traits''
             (merge_traits (map (\<lambda>x. the (map_of ex_map x)) (split_traits t_en)))
             (ex_trans ! 0))"
    by blast
  with en0 have r0: "ex_result ! 0 =
     AList.update ''traits''
       (merge_traits (map (\<lambda>x. the (map_of ex_map x)) (split_traits ''Item. Weapon.'')))
       (ex_trans ! 0)"
    by auto
  from general card1 have "\<exists>t_en. map_of (ex_en ! 1) ''traits'' = Some t_en \<and>
      (if ''Verbuendeter. Miskatonic.'' \<noteq> t_en then ex_result ! 1 = ex_trans ! 1
       else set (split_traits t_en) \<subseteq> dom (map_of ex_map) \<and>
         ex_result ! 1 =
           AList.update ''traits''
             (merge_traits (map (\<lambda>x. the (map_of ex_map x)) (split_traits t_en)))
             (ex_trans ! 1))"
    by blast
  with en1 have r1: "ex_result ! 1 = ex_trans ! 1"
    by auto
  from general en run r0 r1 show ?thesis
    by simp
qed

lemma lookup_all_error: "lookup_all m xs = Inl e \<Longrightarrow> \<exists>k. e = KeyError k"
  by (induction xs) (auto simp: getitem_def split: option.splits sum.splits)

lemma lookup_all_missing:
  "\<exists>x\<in>set xs. map_of m x = None \<Longrightarrow> \<exists>k. lookup_all m xs = Inl (KeyError k)"
proof (induction xs)
  case Nil
  then show ?case by simp
next
  case (Cons x xs)
  show ?case
  proof (cases "map_of m x")
    case None
    then show ?thesis by (simp add: getitem_def)
  next
    case (Some n)
    with Cons.prems have "\<exists>x\<in>set xs. map_of m x = None" by auto
    from Cons.IH [OF this] obtain k where "lookup_all m xs = Inl (KeyError k)" by blast
    with Some show ?thesis by (simp add: getitem_def)
  qed
qed

lemma codes_of_error: "codes_of xs = Inl e \<Longrightarrow> \<exists>k. e = KeyError k"
  by (induction xs) (auto simp: getitem_def split: option.splits sum.splits)

lemma update_item_error:
  "update_item m de ce no item = Inl e \<Longrightarrow> \<exists>k. e = KeyError k"
  by (auto simp: update_item_def getitem_def dest: lookup_all_error
      split: option.splits sum.splits if_splits)

lemma update_items_error:
  "update_items m de ce no items ch = Inl e \<Longrightarrow> \<exists>k. e = KeyError k"
proof (induction items arbitrary: ch)
  case Nil
  then show ?case by simp
next
  case (Cons item items)
  then show ?case
    by (auto dest: update_item_error split: option.splits sum.splits prod.splits)
qed

lemma update_item_recomputed:
  assumes "codes_of de = Inr ce" "update_item m de ce no item = Inr r"
  shows "r \<noteq> None \<longleftrightarrow> recomputed de no item"
  using assms(2) unfolding update_item_english [OF assms(1)] recomputed_def
  by (auto split: option.splits sum.splits if_splits)

lemma update_item_lacks:
  assumes "codes_of de = Inr ce" "lacks_translation m de no item"
  shows "\<exists>k. update_item m de ce no item = Inl (KeyError k)"
proof -
  from assms(2) obtain t c e t_en where
    f: "map_of item ''traits'' = Some t" "map_of item ''code'' = Some c"
      "english_record de c = Some e" "map_of e ''traits'' = Some t_en"
      "\<not> no \<or> t_en = t" "\<exists>x \<in> set (split_traits t_en). map_of m x = None"
    by (auto simp: lacks_translation_def recomputed_def split: option.splits)
  from lookup_all_missing [OF f(6)] obtain k where
    "lookup_all m (split_traits t_en) = Inl (KeyError k)" by blast
  with f show ?thesis
    by (auto simp: update_item_english [OF assms(1)])
qed

lemma update_items_lacks:
  assumes "codes_of de = Inr ce"
  shows "\<exists>item\<in>set items. lacks_translation m de no item \<Longrightarrow>
    \<exists>k. update_items m de ce no items ch = Inl (KeyError k)"
proof (induction items arbitrary: ch)
  case Nil
  then show ?case by simp
next
  case (Cons item items)
  show ?case
  proof (cases "update_item m de ce no item")
    case (Inl e)
    with update_item_error [OF Inl] show ?thesis by auto
  next
    case (Inr r)
    with update_item_lacks [OF assms, of m no item]
    have "\<not> lacks_translation m de no item" by auto
    with Cons.prems have tl: "\<exists>item\<in>set items. lacks_translation m de no item" by auto
    show ?thesis
    proof (cases r)
      case None
      from Cons.IH [OF tl, of ch] Inr None show ?thesis by auto
    next
      case (Some x)
      from Cons.IH [OF tl, of True] Inr Some show ?thesis by auto
    qed
  qed
qed

lemma update_items_changed:
  assumes en: "codes_of de = Inr ce"
    and run: "update_items m de ce no items ch = Inr (items', ch')"
  shows "ch' \<longleftrightarrow> ch \<or> (\<exists>item\<in>set items. recomputed de no item)"
proof -
  from update_items_all2 [OF run]
  have all2: "list_all2 (item_step m de ce no) items items'"
    and ch: "ch' \<longleftrightarrow> ch \<or> (\<exists>item\<in>set items. \<exists>x. update_item m de ce no item = Inr (Some x))"
    by simp_all
  have "(\<exists>x. update_item m de ce no item = Inr (Some x)) \<longleftrightarrow> recomputed de no item"
    if "item \<in> set items" for item
  proof -
    from that all2 obtain item' where "item_step m de ce no item item'"
      by (auto simp: list_all2_conv_all_nth in_set_conv_nth)
    then obtain r where r: "update_item m de ce no item = Inr r"
      by (auto simp: item_step_def)
    from update_item_recomputed [OF en r] r show ?thesis by auto
  qed
  with ch show ?thesis by auto
qed

lemma read_json_written:
  "map_of (nodes w) p = Some (File c0) \<Longrightarrow>
   write_file w p c = Inr (w\<lparr>nodes := AList.update p (File c) (nodes w), written := written w @ [p]\<rparr>)"
  by (simp add: write_file_def isdir_def isfile_def)

lemma read_json_File: "read_json w p = Inr d \<Longrightarrow> map_of (nodes w) p = Some (File (Json d))"
  by (auto simp: read_json_def split: option.splits node.splits content.splits)

lemma read_json_update:
  "read_json (w\<lparr>nodes := AList.update p (File (Json d)) (nodes w), written := l\<rparr>) p = Inr d"
  by (simp add: read_json_def update_conv')

text \<open>
  C3, amended. A translated pack file that \<open>update_traits\<close> processes without an
  exception is written back if and only if at least one of its cards was recomputed,
  whether or not the recomputed traits string differs from the old one: then the file is
  opened for writing once and holds the cards the loop produced; a file none of whose
  cards was recomputed is not rewritten and the world stays as it was.
\<close>

theorem update_file_written:
  assumes en: "read_json w (path_join PACK_PATH file) = Inr data_en"
    and tr: "read_json w (path_trans code file) = Inr data_trans"
    and run: "update_file traits_map code no_overwrite w file = Inr w'"
  shows "if \<exists>item\<in>set data_trans. recomputed data_en no_overwrite item
         then written w' = written w @ [path_trans code file] \<and>
              (\<exists>code_en data'. codes_of data_en = Inr code_en \<and>
                 update_items traits_map data_en code_en no_overwrite data_trans False =
                   Inr (data', True) \<and>
                 read_json w' (path_trans code file) = Inr data')
         else w' = w"
proof -
  from run en tr obtain code_en data' changed where
    ce: "codes_of data_en = Inr code_en"
    and items: "update_items traits_map data_en code_en no_overwrite data_trans False =
        Inr (data', changed)"
    and w': "(if changed then write_file w (path_trans code file) (Json data') else Inr w) = Inr w'"
    by (auto simp: update_file_def split: sum.splits prod.splits)
  from update_items_changed [OF ce items]
  have changed: "changed \<longleftrightarrow> (\<exists>item\<in>set data_trans. recomputed data_en no_overwrite item)"
    by simp
  show ?thesis
  proof (cases changed)
    case True
    from read_json_written [OF read_json_File [OF tr], of "Json data'"] w' True
    have "w' = w\<lparr>nodes := AList.update (path_trans code file) (File (Json data')) (nodes w),
                 written := written w @ [path_trans code file]\<rparr>"
      by simp
    with True changed ce items show ?thesis
      by (auto simp: read_json_update)
  next
    case False
    with w' changed show ?thesis by auto
  qed
qed

theorem update_file_written_witness:
  "update_file [(''Item'', ''Gegenstand'')] ''ko'' True w_partial ''core/a.json'' =
     Inr (w_partial\<lparr>nodes := AList.update ''translations/ko/pack/core/a.json''
            (File (Json [[(''code'', ''01001''), (''traits'', ''Gegenstand.'')]])) (nodes w_partial),
          written := [''translations/ko/pack/core/a.json'']\<rparr>) \<and>
   written (w_partial\<lparr>nodes := AList.update ''translations/ko/pack/core/a.json''
            (File (Json [[(''code'', ''01001''), (''traits'', ''Gegenstand.'')]])) (nodes w_partial),
          written := [''translations/ko/pack/core/a.json'']\<rparr>) =
     written w_partial @ [path_trans ''ko'' ''core/a.json'']"
proof -
  have en: "read_json w_partial (path_join PACK_PATH ''core/a.json'') =
      Inr [[(''code'', ''01001''), (''traits'', ''Item.'')]]"
    by code_simp
  have tr: "read_json w_partial (path_trans ''ko'' ''core/a.json'') =
      Inr [[(''code'', ''01001''), (''traits'', ''Item.'')]]"
    by code_simp
  have run: "update_file [(''Item'', ''Gegenstand'')] ''ko'' True w_partial ''core/a.json'' =
     Inr (w_partial\<lparr>nodes := AList.update ''translations/ko/pack/core/a.json''
            (File (Json [[(''code'', ''01001''), (''traits'', ''Gegenstand.'')]])) (nodes w_partial),
          written := [''translations/ko/pack/core/a.json'']\<rparr>)"
    by code_simp
  have some: "\<exists>item\<in>set [[(''code'', ''01001''), (''traits'', ''Item.'')]].
      recomputed [[(''code'', ''01001''), (''traits'', ''Item.'')]] True item"
    by (simp add: recomputed_def english_record_def)
  from update_file_written [OF en tr run] some run show ?thesis
    by simp
qed

text \<open>
  The claim as stated fails: with a dictionary that maps every trait code to itself (what
  \<open>update_placeholder\<close> seeds), the card's traits string is recomputed to the value
  it had, no file content changes, and the file is rewritten all the same.
\<close>

theorem update_traits_rewrites_unchanged_file:
  "update_traits w_same ''ko'' None True =
    (None, w_same\<lparr>written := [''translations/ko/pack/core/a.json'']\<rparr>)"
  by code_simp

lemma update_file_lacks:
  assumes "read_json w (path_join PACK_PATH file) = Inr data_en"
    and "read_json w (path_trans code file) = Inr data_trans"
    and "\<exists>item\<in>set data_trans. lacks_translation m data_en no item"
  shows "\<exists>k. update_file m code no w file = Inl (KeyError k)"
proof (cases "codes_of data_en")
  case (Inl e)
  with codes_of_error [OF Inl] assms(1,2) show ?thesis
    by (auto simp: update_file_def)
next
  case (Inr ce)
  from update_items_lacks [OF Inr assms(3), of False] obtain k where
    "update_items m data_en ce no data_trans False = Inl (KeyError k)" by blast
  with Inr assms(1,2) show ?thesis
    by (auto simp: update_file_def)
qed

lemma update_files_append:
  "update_files m code no w (xs @ ys) =
     (case update_files m code no w xs of
        (Some e, w') \<Rightarrow> (Some e, w')
      | (None, w') \<Rightarrow> update_files m code no w' ys)"
  by (induction xs arbitrary: w) (auto split: sum.splits)

lemma write_file_written:
  "write_file w p c = Inr w' \<Longrightarrow> written w' = written w @ [p]"
  by (auto simp: write_file_def split: if_splits)

lemma update_file_log:
  "update_file m code no w file = Inr w' \<Longrightarrow>
   written w' = written w \<or> written w' = written w @ [path_trans code file]"
  by (auto simp: update_file_def dest: write_file_written
      split: sum.splits prod.splits if_splits)

lemma update_files_log:
  "update_files m code no w files = (r, w') \<Longrightarrow>
   \<exists>ws. written w' = written w @ ws \<and> set ws \<subseteq> path_trans code ` set files"
proof (induction files arbitrary: w)
  case Nil
  then show ?case by simp
next
  case (Cons f fs)
  show ?case
  proof (cases "update_file m code no w f")
    case (Inl e)
    with Cons.prems show ?thesis by simp
  next
    case (Inr w1)
    with Cons.prems have "update_files m code no w1 fs = (r, w')" by simp
    from Cons.IH [OF this] obtain ws where
      ws: "written w' = written w1 @ ws" "set ws \<subseteq> path_trans code ` set fs" by blast
    from update_file_log [OF Inr] ws show ?thesis
      by auto
  qed
qed

lemma update_file_effect:
  assumes "update_file m code no w f = Inr w'"
  shows "\<exists>data_en data_trans.
      read_json w (path_join PACK_PATH f) = Inr data_en \<and>
      read_json w (path_trans code f) = Inr data_trans \<and>
      (if \<exists>item\<in>set data_trans. recomputed data_en no item
       then written w' = written w @ [path_trans code f] \<and>
            (\<exists>code_en data'. codes_of data_en = Inr code_en \<and>
               update_items m data_en code_en no data_trans False = Inr (data', True) \<and>
               read_json w' (path_trans code f) = Inr data')
       else w' = w)"
proof -
  from assms obtain data_en data_trans code_en data' changed where
    en: "read_json w (path_join PACK_PATH f) = Inr data_en"
    and tr: "read_json w (path_trans code f) = Inr data_trans"
    and ce: "codes_of data_en = Inr code_en"
    and items: "update_items m data_en code_en no data_trans False = Inr (data', changed)"
    and w': "(if changed then write_file w (path_trans code f) (Json data') else Inr w) = Inr w'"
    by (auto simp: update_file_def split: sum.splits prod.splits)
  from update_items_changed [OF ce items]
  have changed: "changed \<longleftrightarrow> (\<exists>item\<in>set data_trans. recomputed data_en no item)"
    by simp
  have "if \<exists>item\<in>set data_trans. recomputed data_en no item
       then written w' = written w @ [path_trans code f] \<and>
            (\<exists>code_en data'. codes_of data_en = Inr code_en \<and>
               update_items m data_en code_en no data_trans False = Inr (data', True) \<and>
               read_json w' (path_trans code f) = Inr data')
       else w' = w"
  proof (cases changed)
    case True
    from read_json_written [OF read_json_File [OF tr], of "Json data'"] w' True
    have "w' = w\<lparr>nodes := AList.update (path_trans code f) (File (Json data')) (nodes w),
                 written := written w @ [path_trans code f]\<rparr>"
      by simp
    with True changed ce items show ?thesis
      by (auto simp: read_json_update)
  next
    case False
    with w' changed show ?thesis by auto
  qed
  with en tr show ?thesis by blast
qed

lemma update_files_split:
  assumes "update_files m code no w (xs @ ys) = (None, w')"
  shows "\<exists>wm. update_files m code no w xs = (None, wm) \<and>
    update_files m code no wm ys = (None, w')"
proof (cases "update_files m code no w xs")
  case (Pair r wm)
  with assms show ?thesis
    by (cases r) (simp_all add: update_files_append)
qed

lemma update_files_step:
  assumes "update_files m code no w (g # b) = (None, w')"
  shows "\<exists>wg. update_file m code no w g = Inr wg \<and> update_files m code no wg b = (None, w')"
  using assms by (cases "update_file m code no w g") simp_all

text \<open>
  C2, amended. If the dictionary and the list of files are read, the files before
  \<open>file\<close> are processed without an exception, and a card of \<open>file\<close> that is
  recomputed has an English trait code with no entry in the dictionary, then
  \<open>update_traits\<close> raises a key-lookup error and the run ends there. \<open>file\<close> and the
  files after it are not written: the log of writes holds paths of earlier files only.
  Every earlier file was handled when its turn came: if one of its cards was recomputed
  the file was written then and holds the recomputed cards, otherwise it was left alone;
  and what was written then is still in the log when the run fails.
\<close>

theorem update_traits_missing_translation:
  assumes dict: "read_json w (trans_traits_path code) = Inr data"
      "code_name_dict data [] = Inr traits_map"
    and found: "get_json_files w (TRANSLATION_PATH @ ''/'' @ code @ ''/'' @ PACK_PATH) cycles = Inr found"
    and files: "[x \<leftarrow> found. isfile w (path_join PACK_PATH x)] = pre @ file # post"
    and before: "update_files traits_map code no_overwrite w pre = (None, w1)"
    and reads: "read_json w1 (path_join PACK_PATH file) = Inr data_en"
      "read_json w1 (path_trans code file) = Inr data_trans"
    and lacks: "\<exists>item\<in>set data_trans. lacks_translation traits_map data_en no_overwrite item"
  shows "\<exists>k. update_traits w code cycles no_overwrite = (Some (KeyError k), w1) \<and>
    (\<exists>ws. written w1 = written w @ ws \<and> set ws \<subseteq> path_trans code ` set pre) \<and>
    (\<forall>a g b. pre = a @ g # b \<longrightarrow>
       (\<exists>wa wg en_g trans_g.
          update_files traits_map code no_overwrite w a = (None, wa) \<and>
          update_files traits_map code no_overwrite w (a @ [g]) = (None, wg) \<and>
          read_json wa (path_join PACK_PATH g) = Inr en_g \<and>
          read_json wa (path_trans code g) = Inr trans_g \<and>
          (if \<exists>item\<in>set trans_g. recomputed en_g no_overwrite item
           then written wg = written wa @ [path_trans code g] \<and>
                (\<exists>code_en data'. codes_of en_g = Inr code_en \<and>
                   update_items traits_map en_g code_en no_overwrite trans_g False =
                     Inr (data', True) \<and>
                   read_json wg (path_trans code g) = Inr data')
           else wg = wa) \<and>
          (\<exists>ws. written w1 = written wg @ ws)))"
proof -
  from update_file_lacks [OF reads lacks] obtain k where
    k: "update_file traits_map code no_overwrite w1 file = Inl (KeyError k)" by blast
  have "update_files traits_map code no_overwrite w (pre @ file # post) = (Some (KeyError k), w1)"
    using before k by (simp add: update_files_append)
  then have run: "update_traits w code cycles no_overwrite = (Some (KeyError k), w1)"
    using dict found files by (simp add: update_traits_def json_module_def)
  have earlier: "\<exists>wa wg en_g trans_g.
          update_files traits_map code no_overwrite w a = (None, wa) \<and>
          update_files traits_map code no_overwrite w (a @ [g]) = (None, wg) \<and>
          read_json wa (path_join PACK_PATH g) = Inr en_g \<and>
          read_json wa (path_trans code g) = Inr trans_g \<and>
          (if \<exists>item\<in>set trans_g. recomputed en_g no_overwrite item
           then written wg = written wa @ [path_trans code g] \<and>
                (\<exists>code_en data'. codes_of en_g = Inr code_en \<and>
                   update_items traits_map en_g code_en no_overwrite trans_g False =
                     Inr (data', True) \<and>
                   read_json wg (path_trans code g) = Inr data')
           else wg = wa) \<and>
          (\<exists>ws. written w1 = written wg @ ws)"
    if pre: "pre = a @ g # b" for a g b
  proof -
    from before pre have "update_files traits_map code no_overwrite w (a @ g # b) = (None, w1)"
      by simp
    from update_files_split [OF this] obtain wa where
      wa: "update_files traits_map code no_overwrite w a = (None, wa)"
        "update_files traits_map code no_overwrite wa (g # b) = (None, w1)"
      by blast
    from update_files_step [OF wa(2)] obtain wg where
      wg: "update_file traits_map code no_overwrite wa g = Inr wg"
        "update_files traits_map code no_overwrite wg b = (None, w1)"
      by blast
    have ag: "update_files traits_map code no_overwrite w (a @ [g]) = (None, wg)"
      using wa(1) wg(1) by (simp add: update_files_append)
    from update_files_log [OF wg(2)] have later: "\<exists>ws. written w1 = written wg @ ws"
      by blast
    from update_file_effect [OF wg(1)] wa(1) ag later show ?thesis
      by blast
  qed
  from run update_files_log [OF before] earlier show ?thesis
    by blast
qed

theorem update_traits_missing_translation_witness:
  "\<exists>k. update_traits w_partial ''ko'' None True =
     (Some (KeyError k),
      w_partial\<lparr>nodes := AList.update ''translations/ko/pack/core/a.json''
            (File (Json [[(''code'', ''01001''), (''traits'', ''Gegenstand.'')]])) (nodes w_partial),
          written := [''translations/ko/pack/core/a.json'']\<rparr>) \<and>
     (\<exists>wg. update_files [(''Item'', ''Gegenstand'')] ''ko'' True w_partial [''core/a.json''] =
            (None, wg) \<and>
          written wg = written w_partial @ [path_trans ''ko'' ''core/a.json''] \<and>
          read_json wg (path_trans ''ko'' ''core/a.json'') =
            Inr [[(''code'', ''01001''), (''traits'', ''Gegenstand.'')]])"
proof -
  have dict: "read_json w_partial (trans_traits_path ''ko'') =
      Inr [[(''code'', ''Item''), (''name'', ''Gegenstand'')]]"
    by code_simp
  have m: "code_name_dict [[(''code'', ''Item''), (''name'', ''Gegenstand'')]] [] =
      Inr [(''Item'', ''Gegenstand'')]"
    by code_simp
  have found: "get_json_files w_partial (TRANSLATION_PATH @ ''/'' @ ''ko'' @ ''/'' @ PACK_PATH) None =
      Inr [''core/a.json'', ''core/b.json'']"
    by code_simp
  have files: "[x \<leftarrow> [''core/a.json'', ''core/b.json'']. isfile w_partial (path_join PACK_PATH x)] =
      [''core/a.json''] @ ''core/b.json'' # []"
    by code_simp
  have before: "update_files [(''Item'', ''Gegenstand'')] ''ko'' True w_partial [''core/a.json''] =
      (None, w_partial\<lparr>nodes := AList.update ''translations/ko/pack/core/a.json''
            (File (Json [[(''code'', ''01001''), (''traits'', ''Gegenstand.'')]])) (nodes w_partial),
          written := [''translations/ko/pack/core/a.json'']\<rparr>)"
    by code_simp
  have en: "read_json (w_partial\<lparr>nodes := AList.update ''translations/ko/pack/core/a.json''
            (File (Json [[(''code'', ''01001''), (''traits'', ''Gegenstand.'')]])) (nodes w_partial),
          written := [''translations/ko/pack/core/a.json'']\<rparr>) (path_join PACK_PATH ''core/b.json'') =
      Inr [[(''code'', ''01002''), (''traits'', ''Item. Weapon.'')]]"
    by code_simp
  have tr: "read_json (w_partial\<lparr>nodes := AList.update ''translations/ko/pack/core/a.json''
            (File (Json [[(''code'', ''01001''), (''traits'', ''Gegenstand.'')]])) (nodes w_partial),
          written := [''translations/ko/pack/core/a.json'']\<rparr>) (path_trans ''ko'' ''core/b.json'') =
      Inr [[(''code'', ''01002''), (''traits'', ''Item. Weapon.'')]]"
    by code_simp
  have lacks: "\<exists>item\<in>set [[(''code'', ''01002''), (''traits'', ''Item. Weapon.'')]].
      lacks_translation [(''Item'', ''Gegenstand'')]
        [[(''code'', ''01002''), (''traits'', ''Item. Weapon.'')]] True item"
    by code_simp
  note general = update_traits_missing_translation [OF dict m found files before en tr lacks]
  from general obtain k where
    run: "update_traits w_partial ''ko'' None True =
     (Some (KeyError k),
      w_partial\<lparr>nodes := AList.update ''translations/ko/pack/core/a.json''
            (File (Json [[(''code'', ''01001''), (''traits'', ''Gegenstand.'')]])) (nodes w_partial),
          written := [''translations/ko/pack/core/a.json'']\<rparr>)"
    and earlier: "\<forall>a g b. [''core/a.json''] = a @ g # b \<longrightarrow>
       (\<exists>wa wg en_g trans_g.
          update_files [(''Item'', ''Gegenstand'')] ''ko'' True w_partial a = (None, wa) \<and>
          update_files [(''Item'', ''Gegenstand'')] ''ko'' True w_partial (a @ [g]) = (None, wg) \<and>
          read_json wa (path_join PACK_PATH g) = Inr en_g \<and>
          read_json wa (path_trans ''ko'' g) = Inr trans_g \<and>
          (if \<exists>item\<in>set trans_g. recomputed en_g True item
           then written wg = written wa @ [path_trans ''ko'' g] \<and>
                (\<exists>code_en data'. codes_of en_g = Inr code_en \<and>
                   update_items [(''Item'', ''Gegenstand'')] en_g code_en True trans_g False =
                     Inr (data', True) \<and>
                   read_json wg (path_trans ''ko'' g) = Inr data')
           else wg = wa) \<and>
          (\<exists>ws. written (w_partial\<lparr>nodes := AList.update ''translations/ko/pack/core/a.json''
            (File (Json [[(''code'', ''01001''), (''traits'', ''Gegenstand.'')]])) (nodes w_partial),
          written := [''translations/ko/pack/core/a.json'']\<rparr>) = written wg @ ws))"
    by blast
  have "[''core/a.json''] = [] @ ''core/a.json'' # []"
    by simp
  with earlier obtain wa wg en_g trans_g where
    wa: "update_files [(''Item'', ''Gegenstand'')] ''ko'' True w_partial [] = (None, wa)"
    and wg: "update_files [(''Item'', ''Gegenstand'')] ''ko'' True w_partial ([] @ [''core/a.json'']) =
        (None, wg)"
    and en_g: "read_json wa (path_join PACK_PATH ''core/a.json'') = Inr en_g"
    and trans_g: "read_json wa (path_trans ''ko'' ''core/a.json'') = Inr trans_g"
    and eff: "if \<exists>item\<in>set trans_g. recomputed en_g True item
           then written wg = written wa @ [path_trans ''ko'' ''core/a.json''] \<and>
                (\<exists>code_en data'. codes_of en_g = Inr code_en \<and>
                   update_items [(''Item'', ''Gegenstand'')] en_g code_en True trans_g False =
                     Inr (data', True) \<and>
                   read_json wg (path_trans ''ko'' ''core/a.json'') = Inr data')
           else wg = wa"
    by blast
  from wa have wa': "wa = w_partial" by simp
  have en0: "read_json w_partial (path_join PACK_PATH ''core/a.json'') =
      Inr [[(''code'', ''01001''), (''traits'', ''Item.'')]]"
    by code_simp
  have tr0: "read_json w_partial (path_trans ''ko'' ''core/a.json'') =
      Inr [[(''code'', ''01001''), (''traits'', ''Item.'')]]"
    by code_simp
  from en_g en0 wa' have en_g': "en_g = [[(''code'', ''01001''), (''traits'', ''Item.'')]]"
    by simp
  from trans_g tr0 wa' have trans_g': "trans_g = [[(''code'', ''01001''), (''traits'', ''Item.'')]]"
    by simp
  have some: "\<exists>item\<in>set [[(''code'', ''01001''), (''traits'', ''Item.'')]].
      recomputed [[(''code'', ''01001''), (''traits'', ''Item.'')]] True item"
    by code_simp
  have codes: "codes_of [[(''code'', ''01001''), (''traits'', ''Item.'')]] = Inr [''01001'']"
    by code_simp
  have items: "update_items [(''Item'', ''Gegenstand'')] [[(''code'', ''01001''), (''traits'', ''Item.'')]]
      [''01001''] True [[(''code'', ''01001''), (''traits'', ''Item.'')]] False =
      Inr ([[(''code'', ''01001''), (''traits'', ''Gegenstand.'')]], True)"
    by code_simp
  from eff some have log: "written wg = written w_partial @ [path_trans ''ko'' ''core/a.json'']"
    and "\<exists>code_en data'. codes_of [[(''code'', ''01001''), (''traits'', ''Item.'')]] = Inr code_en \<and>
        update_items [(''Item'', ''Gegenstand'')] [[(''code'', ''01001''), (''traits'', ''Item.'')]]
          code_en True [[(''code'', ''01001''), (''traits'', ''Item.'')]] False = Inr (data', True) \<and>
        read_json wg (path_trans ''ko'' ''core/a.json'') = Inr data'"
    unfolding en_g' trans_g' wa' by simp_all
  with codes items have content: "read_json wg (path_trans ''ko'' ''core/a.json'') =
      Inr [[(''code'', ''01001''), (''traits'', ''Gegenstand.'')]]"
    by auto
  from wg have "update_files [(''Item'', ''Gegenstand'')] ''ko'' True w_partial [''core/a.json''] =
      (None, wg)"
    by simp
  with run log content show ?thesis
    by blast
qed

text \<open>
  The claim as stated fails: the first file is processed and written before the second
  one raises the key-lookup error, so the run that fails has written a pack file.
\<close>

theorem update_traits_writes_before_failing:
  "fst (update_traits w_partial ''ko'' None True) = Some (KeyError ''Weapon'') \<and>
   written (snd (update_traits w_partial ''ko'' None True)) =
     [''translations/ko/pack/core/a.json'']"
  by code_simp

lemma read_json_guard: "read_json w p \<noteq> Inl guard_error"
  by (auto simp: read_json_def guard_error_def split: option.splits node.splits content.splits)

lemma code_name_dict_guard: "code_name_dict data d \<noteq> Inl guard_error"
  by (induction data arbitrary: d)
    (auto simp: getitem_def guard_error_def split: option.splits)

lemma listdir_guard: "listdir w p \<noteq> Inl guard_error"
  by (auto simp: listdir_def guard_error_def split: option.splits node.splits)

lemma collect_json_files_guard: "collect_json_files w path cs acc \<noteq> Inl guard_error"
  using listdir_guard by (induction cs arbitrary: acc) (auto split: sum.splits)

lemma not_directory_message:
  "path @ '' is not directory (when parsing json)'' \<noteq> ''no proper json files''"
proof
  assume "path @ '' is not directory (when parsing json)'' = ''no proper json files''"
  then have "last (path @ '' is not directory (when parsing json)'') = last ''no proper json files''"
    by simp
  then show False by simp
qed

lemma get_json_files_guard: "get_json_files w path cycles \<noteq> Inl guard_error"
proof
  assume a: "get_json_files w path cycles = Inl guard_error"
  show False
  proof (cases "isdir w path")
    case False
    with a not_directory_message [of path] show False
      by (simp add: get_json_files_def guard_error_def)
  next
    case True
    with a collect_json_files_guard listdir_guard show False
      by (auto simp: get_json_files_def split: sum.splits option.splits if_splits)
  qed
qed

lemma write_file_guard: "write_file w p c \<noteq> Inl guard_error"
  by (auto simp: write_file_def guard_error_def)

lemma update_file_guard: "update_file m code no w file \<noteq> Inl guard_error"
proof
  assume a: "update_file m code no w file = Inl guard_error"
  then show False
    using read_json_guard write_file_guard
    by (auto simp: update_file_def guard_error_def
        dest!: codes_of_error update_items_error split: sum.splits prod.splits if_splits)
qed

lemma update_files_guard: "fst (update_files m code no w files) \<noteq> Some guard_error"
  using update_file_guard by (induction files arbitrary: w) (auto split: sum.splits)

text \<open>
  C10. The guard \<open>if not json\<close> tests the module, which is true, so \<open>update_traits\<close>
  never raises \<open>IOError('no proper json files')\<close>, whatever its input; when the
  dictionary and the directory are read and no translated pack file with an English
  counterpart is found, it returns without an exception and leaves the world as it was.
\<close>

theorem update_traits_guard_unreachable:
  "fst (update_traits w code cycles no_overwrite) \<noteq> Some (IOError ''no proper json files'') \<and>
   (\<forall>data traits_map found.
      read_json w (trans_traits_path code) = Inr data \<and>
      code_name_dict data [] = Inr traits_map \<and>
      get_json_files w (TRANSLATION_PATH @ ''/'' @ code @ ''/'' @ PACK_PATH) cycles = Inr found \<and>
      [x \<leftarrow> found. isfile w (path_join PACK_PATH x)] = [] \<longrightarrow>
      update_traits w code cycles no_overwrite = (None, w))"
proof (intro conjI allI impI)
  show "fst (update_traits w code cycles no_overwrite) \<noteq> Some (IOError ''no proper json files'')"
    using read_json_guard code_name_dict_guard get_json_files_guard update_files_guard
    by (auto simp: update_traits_def json_module_def guard_error_def split: sum.splits)
next
  fix data traits_map found
  assume "read_json w (trans_traits_path code) = Inr data \<and>
      code_name_dict data [] = Inr traits_map \<and>
      get_json_files w (TRANSLATION_PATH @ ''/'' @ code @ ''/'' @ PACK_PATH) cycles = Inr found \<and>
      [x \<leftarrow> found. isfile w (path_join PACK_PATH x)] = []"
  then show "update_traits w code cycles no_overwrite = (None, w)"
    by (simp add: update_traits_def json_module_def)
qed

theorem update_traits_guard_unreachable_witness:
  "fst (update_traits w_nothing ''ko'' None True) \<noteq> Some (IOError ''no proper json files'') \<and>
   update_traits w_nothing ''ko'' None True = (None, w_nothing)"
proof -
  have "read_json w_nothing (trans_traits_path ''ko'') = Inr [] \<and>
      code_name_dict [] [] = Inr [] \<and>
      get_json_files w_nothing (TRANSLATION_PATH @ ''/'' @ ''ko'' @ ''/'' @ PACK_PATH) None = Inr [] \<and>
      [x \<leftarrow> []. isfile w_nothing (path_join PACK_PATH x)] = []"
    by code_simp
  with update_traits_guard_unreachable [of w_nothing "''ko''" None True] show ?thesis
    by blast
qed

section \<open>Properties of file discovery and of the master list\<close>

text \<open>
  C4. The claim asks for three paths from a tree with the directory \<open>pack/core\<close>
  holding two \<open>.json\<close> files and the stray file \<open>pack/stray.json\<close>. The script tests
  \<open>os.path.isfile\<close> on the bare name \<open>stray.json\<close>, which is not a file of the working
  directory, so it goes on to list \<open>pack/stray.json\<close> as a directory and fails.
\<close>

theorem get_json_files_stray_file:
  "get_json_files w_stray ''pack'' None = Inl (OSError ENOTDIR ''pack/stray.json'')"
  by code_simp

lemma fold_insert_union: "fold List.insert xs ys = List.union xs ys"
  by (simp add: List.union_def)

lemma card_traits_set:
  "set (card_traits data traits) =
     set traits \<union> {t. \<exists>c \<in> set data. \<exists>s. map_of c ''traits'' = Some s \<and> t \<in> set (split_traits s)}"
  by (induction data arbitrary: traits) (auto simp: fold_insert_union split: option.splits)

lemma card_traits_distinct: "distinct traits \<Longrightarrow> distinct (card_traits data traits)"
  by (induction data arbitrary: traits) (auto simp: fold_insert_union split: option.splits)

lemma collect_traits_set:
  "collect_traits w fs traits = Inr ts \<Longrightarrow>
   set ts = set traits \<union> trait_universe w fs"
proof (induction fs arbitrary: traits)
  case Nil
  then show ?case by (simp add: trait_universe_def)
next
  case (Cons f fs)
  from Cons.prems obtain data where
    data: "read_json w (path_join PACK_PATH f) = Inr data"
      "collect_traits w fs (card_traits data traits) = Inr ts"
    by (auto split: sum.splits)
  from Cons.IH [OF data(2)] data(1) show ?case
    by (auto simp: card_traits_set trait_universe_def)
qed

lemma collect_traits_distinct:
  "collect_traits w fs traits = Inr ts \<Longrightarrow> distinct traits \<Longrightarrow> distinct ts"
  by (induction fs arbitrary: traits) (auto simp: card_traits_distinct split: sum.splits)

lemma write_file_result:
  "write_file w p c = Inr w' \<Longrightarrow>
   w' = w\<lparr>nodes := AList.update p (File c) (nodes w), written := written w @ [p]\<rparr>"
  by (auto simp: write_file_def split: if_splits)

text \<open>
  C9. Whenever \<open>make_placeholder\<close> returns without an exception it has written the
  master traits file, an array of objects with \<open>code\<close> and \<open>name\<close> both equal to a
  trait name, where the names are sorted, free of duplicates, and exactly the trait
  universe of the English pack files found (names compared as they are, after the
  stripping \<open>split_traits\<close> does). Two pack files with the traits \<open>Item.\<close> and
  \<open>Item. Weapon.\<close> give the two entries \<open>Item\<close> and \<open>Weapon\<close>, in this order.
\<close>

theorem make_placeholder_master_list:
  "(\<forall>w w'. make_placeholder w = (None, w') \<longrightarrow>
      (\<exists>json_files xs.
         get_json_files w PACK_PATH None = Inr json_files \<and>
         written w' = written w @ [TRAITS_FILENAME] \<and>
         read_json w' TRAITS_FILENAME = Inr [[(''code'', x), (''name'', x)]. x \<leftarrow> xs] \<and>
         sorted xs \<and> distinct xs \<and> set xs = trait_universe w json_files))
   \<and> fst (make_placeholder w_two) = None
   \<and> read_json (snd (make_placeholder w_two)) TRAITS_FILENAME =
       Inr [[(''code'', ''Item''), (''name'', ''Item'')],
            [(''code'', ''Weapon''), (''name'', ''Weapon'')]]"
proof (intro conjI allI impI)
  fix w w'
  assume run: "make_placeholder w = (None, w')"
  then obtain json_files traits where
    jf: "get_json_files w PACK_PATH None = Inr json_files"
    and tr: "collect_traits w json_files [] = Inr traits"
    and wr: "write_file w TRAITS_FILENAME
        (Json [[(''code'', x), (''name'', x)]. x \<leftarrow> sort traits]) = Inr w'"
    by (auto simp: make_placeholder_def split: sum.splits)
  from write_file_result [OF wr]
  have w': "w' = w\<lparr>nodes := AList.update TRAITS_FILENAME
      (File (Json [[(''code'', x), (''name'', x)]. x \<leftarrow> sort traits])) (nodes w),
      written := written w @ [TRAITS_FILENAME]\<rparr>" .
  have "read_json w' TRAITS_FILENAME = Inr [[(''code'', x), (''name'', x)]. x \<leftarrow> sort traits]"
    unfolding w' by (rule read_json_update)
  moreover have "written w' = written w @ [TRAITS_FILENAME]"
    unfolding w' by simp
  moreover have "sorted (sort traits)" "distinct (sort traits)"
    using collect_traits_distinct [OF tr] by simp_all
  moreover have "set (sort traits) = trait_universe w json_files"
    using collect_traits_set [OF tr] by simp
  ultimately show "\<exists>json_files xs.
         get_json_files w PACK_PATH None = Inr json_files \<and>
         written w' = written w @ [TRAITS_FILENAME] \<and>
         read_json w' TRAITS_FILENAME = Inr [[(''code'', x), (''name'', x)]. x \<leftarrow> xs] \<and>
         sorted xs \<and> distinct xs \<and> set xs = trait_universe w json_files"
    using jf by blast
next
  show "fst (make_placeholder w_two) = None"
    by code_simp
next
  show "read_json (snd (make_placeholder w_two)) TRAITS_FILENAME =
       Inr [[(''code'', ''Item''), (''name'', ''Item'')],
            [(''code'', ''Weapon''), (''name'', ''Weapon'')]]"
    by code_simp
qed

theorem make_placeholder_master_list_witness:
  "\<exists>xs. read_json (snd (make_placeholder w_two)) TRAITS_FILENAME =
       Inr [[(''code'', x), (''name'', x)]. x \<leftarrow> xs] \<and>
     sorted xs \<and> distinct xs \<and>
     set xs = trait_universe w_two [''core/a.json'', ''core/b.json'']"
proof -
  have run: "make_placeholder w_two = (None, snd (make_placeholder w_two))"
    by code_simp
  have jf: "get_json_files w_two PACK_PATH None = Inr [''core/a.json'', ''core/b.json'']"
    by code_simp
  from make_placeholder_master_list
  have "\<forall>w w'. make_placeholder w = (None, w') \<longrightarrow>
      (\<exists>json_files xs.
         get_json_files w PACK_PATH None = Inr json_files \<and>
         written w' = written w @ [TRAITS_FILENAME] \<and>
         read_json w' TRAITS_FILENAME = Inr [[(''code'', x), (''name'', x)]. x \<leftarrow> xs] \<and>
         sorted xs \<and> distinct xs \<and> set xs = trait_universe w json_files)"
    by (rule conjunct1)
  with run obtain json_files xs where
    r: "get_json_files w_two PACK_PATH None = Inr json_files"
      "read_json (snd (make_placeholder w_two)) TRAITS_FILENAME =
         Inr [[(''code'', x), (''name'', x)]. x \<leftarrow> xs]"
      "sorted xs" "distinct xs" "set xs = trait_universe w_two json_files"
    by blast
  from r(1) jf have "json_files = [''core/a.json'', ''core/b.json'']"
    by simp
  with r show ?thesis
    by blast
qed

section \<open>Properties of placeholder seeding\<close>

lemma codes_of_map:
  "codes_of xs = Inr cs \<Longrightarrow> cs = map code_of xs \<and> (\<forall>x\<in>set xs. map_of x ''code'' \<noteq> None)"
  by (induction xs arbitrary: cs)
    (auto simp: getitem_def code_of_def split: option.splits sum.splits)

lemma codes_of_total:
  "\<forall>x\<in>set xs. map_of x ''code'' \<noteq> None \<Longrightarrow> codes_of xs = Inr (map code_of xs)"
  by (induction xs) (auto simp: getitem_def code_of_def split: option.splits)

lemma insort_key_zip:
  "insort_key fst (k x, x) (zip (map k ys) ys) =
     zip (map k (insort_key k x ys)) (insort_key k x ys)"
  by (induction ys) auto

lemma sort_key_zip:
  "sort_key fst (zip (map k xs) xs) = zip (map k (sort_key k xs)) (sort_key k xs)"
  by (induction xs) (auto simp: insort_key_zip)

lemma sort_by_code_eq:
  "sort_by_code xs = Inr r \<Longrightarrow> r = sort_key code_of xs"
proof -
  assume a: "sort_by_code xs = Inr r"
  then obtain cs where cs: "codes_of xs = Inr cs" "r = map snd (sort_key fst (zip cs xs))"
    by (auto simp: sort_by_code_def split: sum.splits)
  from codes_of_map [OF cs(1)] have "cs = map code_of xs" by simp
  with cs(2) show ?thesis
    by (simp add: sort_key_zip)
qed

lemma sort_by_code_total:
  "\<forall>x\<in>set xs. map_of x ''code'' \<noteq> None \<Longrightarrow> sort_by_code xs = Inr (sort_key code_of xs)"
  by (simp add: sort_by_code_def codes_of_total sort_key_zip)

lemma append_new_eq:
  "append_new tc data td = Inr r \<Longrightarrow>
   r = td @ [item \<leftarrow> data. code_of item \<notin> set tc] \<and>
   (\<forall>x\<in>set data. map_of x ''code'' \<noteq> None)"
proof (induction data arbitrary: td)
  case Nil
  then show ?case by simp
next
  case (Cons item data)
  from Cons.prems obtain c where
    c: "map_of item ''code'' = Some c"
      "append_new tc data (if c \<notin> set tc then td @ [item] else td) = Inr r"
    by (auto simp: getitem_def split: option.splits)
  from Cons.IH [OF c(2)] c(1) show ?case
    by (auto simp: code_of_def)
qed

lemma append_new_total:
  "\<forall>x\<in>set data. map_of x ''code'' \<noteq> None \<Longrightarrow>
   append_new tc data td = Inr (td @ [item \<leftarrow> data. code_of item \<notin> set tc])"
  by (induction data arbitrary: td)
    (auto simp: getitem_def code_of_def split: option.splits)

lemma trans_traits_path_neq:
  "trans_traits_path code \<noteq> TRAITS_FILENAME"
  "trans_traits_path code \<noteq> TRANSLATION_PATH @ ''/'' @ code"
proof -
  have "length (trans_traits_path code) \<noteq> length TRAITS_FILENAME"
    by (simp add: trans_traits_path_def TRAITS_FILENAME_def TRANSLATION_PATH_def)
  then show "trans_traits_path code \<noteq> TRAITS_FILENAME" by auto
  have "length (trans_traits_path code) \<noteq> length (TRANSLATION_PATH @ ''/'' @ code)"
    by (simp add: trans_traits_path_def TRAITS_FILENAME_def TRANSLATION_PATH_def)
  then show "trans_traits_path code \<noteq> TRANSLATION_PATH @ ''/'' @ code" by auto
qed

lemma update_placeholder_second_run:
  assumes master: "read_json w TRAITS_FILENAME = Inr master"
    and dir: "isdir w (TRANSLATION_PATH @ ''/'' @ code)"
    and new: "read_json w (trans_traits_path code) = Inr new"
    and codes: "\<forall>x\<in>set new. map_of x ''code'' \<noteq> None"
      "\<forall>x\<in>set master. map_of x ''code'' \<noteq> None"
    and srt: "sorted (map code_of new)"
    and cover: "code_of ` set master \<subseteq> code_of ` set new"
  shows "update_placeholder w code =
    (None, w\<lparr>written := written w @ [trans_traits_path code]\<rparr>)"
proof -
  have f1: "isfile w TRAITS_FILENAME"
    using master by (auto simp: isfile_def read_json_def split: option.splits node.splits)
  have f2: "isfile w (trans_traits_path code)" "\<not> isdir w (trans_traits_path code)"
    "map_of (nodes w) (trans_traits_path code) = Some (File (Json new))"
    using new
    by (auto simp: isfile_def isdir_def read_json_def
        split: option.splits node.splits content.splits)
  have c: "codes_of new = Inr (map code_of new)"
    using codes(1) by (rule codes_of_total)
  have "[item \<leftarrow> master. code_of item \<notin> set (map code_of new)] = []"
    using cover by (auto simp: filter_empty_conv)
  then have a: "append_new (map code_of new) master new = Inr new"
    using append_new_total [OF codes(2), of "map code_of new" new] by simp
  have s: "sort_by_code new = Inr new"
    using sort_by_code_total [OF codes(1)] sort_key_id_if_sorted [OF srt] by simp
  have wr: "write_file w (trans_traits_path code) (Json new) =
      Inr (w\<lparr>written := written w @ [trans_traits_path code]\<rparr>)"
    using f2 by (simp add: write_file_def update_triv)
  show ?thesis
    using f1 dir f2 new c master a s wr
    by (simp add: update_placeholder_def)
qed

lemma update_placeholder_first_run:
  assumes "update_placeholder w code = (None, w1)"
  shows "\<exists>old master.
      isdir w (TRANSLATION_PATH @ ''/'' @ code) \<and>
      (if isfile w (trans_traits_path code) then read_json w (trans_traits_path code)
       else Inr []) = Inr old \<and>
      read_json w TRAITS_FILENAME = Inr master \<and>
      (\<forall>x\<in>set old. map_of x ''code'' \<noteq> None) \<and>
      (\<forall>x\<in>set master. map_of x ''code'' \<noteq> None) \<and>
      w1 = w\<lparr>nodes := AList.update (trans_traits_path code)
                (File (Json (sort_key code_of
                   (old @ [item \<leftarrow> master. code_of item \<notin> code_of ` set old]))))
                (nodes w),
              written := written w @ [trans_traits_path code]\<rparr>"
proof -
  from assms have dir: "isdir w (TRANSLATION_PATH @ ''/'' @ code)"
    by (auto simp: update_placeholder_def split: if_splits)
  from assms obtain old trans_codes master td1 td2 where
    old: "(if isfile w (trans_traits_path code) then read_json w (trans_traits_path code)
       else Inr []) = Inr old"
    and tc: "codes_of old = Inr trans_codes"
    and master: "read_json w TRAITS_FILENAME = Inr master"
    and td1: "append_new trans_codes master old = Inr td1"
    and td2: "sort_by_code td1 = Inr td2"
    and wr: "write_file w (trans_traits_path code) (Json td2) = Inr w1"
    by (auto simp: update_placeholder_def split: if_splits sum.splits)
  from codes_of_map [OF tc] have tc': "trans_codes = map code_of old"
    and oc: "\<forall>x\<in>set old. map_of x ''code'' \<noteq> None" by simp_all
  from append_new_eq [OF td1] tc'
  have td1': "td1 = old @ [item \<leftarrow> master. code_of item \<notin> code_of ` set old]"
    and mc: "\<forall>x\<in>set master. map_of x ''code'' \<noteq> None" by simp_all
  from sort_by_code_eq [OF td2] td1'
  have td2': "td2 = sort_key code_of (old @ [item \<leftarrow> master. code_of item \<notin> code_of ` set old])"
    by simp
  from write_file_result [OF wr] td2' dir old master oc mc show ?thesis
    by blast
qed

text \<open>
  C8. \<open>update_placeholder\<close> is additive and idempotent. A run that raises leaves the
  world as it was. After a run that raises nothing, the per-language file holds every
  entry it held before, as it was (translated names included), together with the master
  entries whose code no earlier entry had, and nothing else; it is sorted by code; and a
  second run succeeds and changes nothing but the log of writes: it adds no entry and
  alters no name.
\<close>

theorem update_placeholder_additive_idempotent:
  "(\<forall>e w1. update_placeholder w code = (Some e, w1) \<longrightarrow> w1 = w) \<and>
   (\<forall>w1. update_placeholder w code = (None, w1) \<longrightarrow>
      (\<exists>old master new.
         (if isfile w (trans_traits_path code) then read_json w (trans_traits_path code)
          else Inr []) = Inr old \<and>
         read_json w TRAITS_FILENAME = Inr master \<and>
         read_json w1 (trans_traits_path code) = Inr new \<and>
         mset new = mset old + mset [item \<leftarrow> master. code_of item \<notin> code_of ` set old] \<and>
         sorted (map code_of new) \<and>
         (\<forall>x\<in>set new. map_of x ''code'' \<noteq> None) \<and>
         update_placeholder w1 code =
           (None, w1\<lparr>written := written w1 @ [trans_traits_path code]\<rparr>)))"
proof (intro conjI allI impI)
  fix e w1
  assume "update_placeholder w code = (Some e, w1)"
  then show "w1 = w"
    by (auto simp: update_placeholder_def split: if_splits sum.splits)
next
  fix w1
  assume run: "update_placeholder w code = (None, w1)"
  from update_placeholder_first_run [OF run] obtain old master where
    dir: "isdir w (TRANSLATION_PATH @ ''/'' @ code)"
    and old: "(if isfile w (trans_traits_path code) then read_json w (trans_traits_path code)
       else Inr []) = Inr old"
    and master: "read_json w TRAITS_FILENAME = Inr master"
    and oc: "\<forall>x\<in>set old. map_of x ''code'' \<noteq> None"
    and mc: "\<forall>x\<in>set master. map_of x ''code'' \<noteq> None"
    and w1: "w1 = w\<lparr>nodes := AList.update (trans_traits_path code)
                (File (Json (sort_key code_of
                   (old @ [item \<leftarrow> master. code_of item \<notin> code_of ` set old]))))
                (nodes w),
              written := written w @ [trans_traits_path code]\<rparr>"
    by blast
  define new where
    "new = sort_key code_of (old @ [item \<leftarrow> master. code_of item \<notin> code_of ` set old])"
  have rd: "read_json w1 (trans_traits_path code) = Inr new"
    unfolding w1 new_def by (rule read_json_update)
  have ms: "mset new = mset old + mset [item \<leftarrow> master. code_of item \<notin> code_of ` set old]"
    by (simp add: new_def)
  have srt: "sorted (map code_of new)"
    by (simp add: new_def)
  have st: "set new = set old \<union> {item \<in> set master. code_of item \<notin> code_of ` set old}"
    by (auto simp: new_def)
  have nc: "\<forall>x\<in>set new. map_of x ''code'' \<noteq> None"
    using oc mc st by auto
  have cover: "code_of ` set master \<subseteq> code_of ` set new"
    using st by auto
  have master1: "read_json w1 TRAITS_FILENAME = Inr master"
    using master trans_traits_path_neq(1) [of code]
    unfolding w1 read_json_def by (simp add: update_conv')
  have dir1: "isdir w1 (TRANSLATION_PATH @ ''/'' @ code)"
    using dir trans_traits_path_neq(2) [of code]
    unfolding w1 isdir_def by (simp add: update_conv')
  have again: "update_placeholder w1 code =
      (None, w1\<lparr>written := written w1 @ [trans_traits_path code]\<rparr>)"
    using master1 dir1 rd nc mc srt cover by (rule update_placeholder_second_run)
  from old master rd ms srt nc again
  show "\<exists>old master new.
         (if isfile w (trans_traits_path code) then read_json w (trans_traits_path code)
          else Inr []) = Inr old \<and>
         read_json w TRAITS_FILENAME = Inr master \<and>
         read_json w1 (trans_traits_path code) = Inr new \<and>
         mset new = mset old + mset [item \<leftarrow> master. code_of item \<notin> code_of ` set old] \<and>
         sorted (map code_of new) \<and>
         (\<forall>x\<in>set new. map_of x ''code'' \<noteq> None) \<and>
         update_placeholder w1 code =
           (None, w1\<lparr>written := written w1 @ [trans_traits_path code]\<rparr>)"
    by blast
qed

theorem update_placeholder_additive_idempotent_witness:
  "update_placeholder w_seed ''ko'' = (None, w_seeded) \<and>
   update_placeholder w_seeded ''ko'' =
     (None, w_seeded\<lparr>written := written w_seeded @ [trans_traits_path ''ko'']\<rparr>)"
proof -
  have run: "update_placeholder w_seed ''ko'' = (None, w_seeded)"
    by code_simp
  from update_placeholder_additive_idempotent [of w_seed "''ko''"] run show ?thesis
    by blast
qed

section \<open>Properties of the text bridge\<close>

lemma split_chr_two:
  "sep \<notin> set c \<Longrightarrow> sep \<notin> set n \<Longrightarrow> split_chr sep (c @ sep # n) = [c, n]"
  by (simp add: split_chr_append split_chr_no_sep)

lemma split_chr_many:
  assumes "sep \<notin> set c" "sep \<in> set n"
  shows "\<exists>a b bs. split_chr sep (c @ sep # n) = c # a # b # bs"
proof -
  from assms(2) obtain n1 n2 where n: "n = n1 @ sep # n2" "sep \<notin> set n1"
    by (auto dest: split_list_first)
  obtain b bs where "split_chr sep n2 = b # bs"
    using split_chr_nonempty [of sep n2] by (cases "split_chr sep n2") auto
  with assms(1) n show ?thesis
    by (simp add: split_chr_append)
qed

lemma txt2json_lines_keys:
  "txt2json_lines data lines = Inr data' \<Longrightarrow> map fst data' = map fst data"
proof (induction lines arbitrary: data)
  case Nil
  then show ?case by simp
next
  case (Cons l ls)
  from Cons.prems obtain d where
    d: "txt2json_line data l = Inr d" "txt2json_lines d ls = Inr data'"
    by (auto split: sum.splits)
  from d(1) have "map fst d = map fst data"
    by (force simp: txt2json_line_def update_keys map_of_eq_None_iff
        split: if_splits list.splits)
  with Cons.IH [OF d(2)] show ?case by simp
qed

text \<open>
  C5, amended. For every line of the text file, \<open>txt2json\<close> skips the line when it is
  blank; otherwise it splits the line at its tabs and raises a parse error unless the line
  holds exactly one tab (none, or more than one); with exactly one tab the stripped first
  part is the code and the stripped second part the name, and the name stored for that
  code is overwritten only when the code is already a key of the data read from the JSON
  file; a line with an unknown code changes nothing, and over the whole loop the keys
  stay the ones of the JSON file, in their order.
\<close>

theorem txt2json_line_cases:
  "(strip line = [] \<longrightarrow> txt2json_line data line = Inr data) \<and>
   (strip line \<noteq> [] \<and> TAB \<notin> set line \<longrightarrow>
      txt2json_line data line = Inl (ValueError ''need more than 1 value to unpack'')) \<and>
   (strip line \<noteq> [] \<and> line = c @ TAB # n \<and> TAB \<notin> set c \<and> TAB \<notin> set n \<longrightarrow>
      txt2json_line data line =
        Inr (if strip c \<in> fst ` set data then AList.update (strip c) (strip n) data else data)) \<and>
   (strip line \<noteq> [] \<and> line = c @ TAB # n \<and> TAB \<notin> set c \<and> TAB \<in> set n \<longrightarrow>
      txt2json_line data line = Inl (ValueError ''too many values to unpack'')) \<and>
   (txt2json_lines data lines = Inr data' \<longrightarrow> map fst data' = map fst data)"
proof (intro conjI impI)
  assume "strip line = []"
  then show "txt2json_line data line = Inr data"
    by (simp add: txt2json_line_def)
next
  assume "strip line \<noteq> [] \<and> TAB \<notin> set line"
  then show "txt2json_line data line = Inl (ValueError ''need more than 1 value to unpack'')"
    by (simp add: txt2json_line_def split_chr_no_sep)
next
  assume a: "strip line \<noteq> [] \<and> line = c @ TAB # n \<and> TAB \<notin> set c \<and> TAB \<notin> set n"
  then have ne: "strip line \<noteq> []" and l: "line = c @ TAB # n"
    and t: "TAB \<notin> set c" "TAB \<notin> set n"
    by blast+
  have sp: "split_chr TAB line = [c, n]"
    unfolding l using t by (rule split_chr_two)
  show "txt2json_line data line =
        Inr (if strip c \<in> fst ` set data then AList.update (strip c) (strip n) data else data)"
    unfolding txt2json_line_def using sp ne
    by (simp add: map_of_eq_None_iff)
next
  assume a: "strip line \<noteq> [] \<and> line = c @ TAB # n \<and> TAB \<notin> set c \<and> TAB \<in> set n"
  then obtain x y ys where sp: "split_chr TAB line = c # x # y # ys"
    using split_chr_many [of TAB c n] by auto
  from a have ne: "strip line \<noteq> []" by blast
  show "txt2json_line data line = Inl (ValueError ''too many values to unpack'')"
    unfolding txt2json_line_def using sp ne by simp
next
  assume "txt2json_lines data lines = Inr data'"
  then show "map fst data' = map fst data"
    by (rule txt2json_lines_keys)
qed

theorem txt2json_line_cases_witness:
  "txt2json_line [(''Item'', ''Item'')] ('' '' @ [LF]) = Inr [(''Item'', ''Item'')] \<and>
   txt2json_line [(''Item'', ''Item'')] (''Item Gegenstand'' @ [LF]) =
     Inl (ValueError ''need more than 1 value to unpack'') \<and>
   txt2json_line [(''Item'', ''Item'')] (''Item'' @ TAB # ('' Gegenstand'' @ [LF])) =
     Inr [(''Item'', ''Gegenstand'')] \<and>
   txt2json_line [(''Item'', ''Item'')] (''Ally'' @ TAB # (''Verbuendeter'' @ [LF])) =
     Inr [(''Item'', ''Item'')] \<and>
   txt2json_line [(''Item'', ''Item'')] (''Item'' @ TAB # (''Gegen'' @ [TAB] @ ''stand'')) =
     Inl (ValueError ''too many values to unpack'')"
proof -
  have blank: "strip ('' '' @ [LF]) = []"
    by code_simp
  have notab: "strip (''Item Gegenstand'' @ [LF]) \<noteq> [] \<and> TAB \<notin> set (''Item Gegenstand'' @ [LF])"
    by code_simp
  have one: "strip (''Item'' @ TAB # ('' Gegenstand'' @ [LF])) \<noteq> [] \<and>
      ''Item'' @ TAB # ('' Gegenstand'' @ [LF]) = ''Item'' @ TAB # ('' Gegenstand'' @ [LF]) \<and>
      TAB \<notin> set ''Item'' \<and> TAB \<notin> set ('' Gegenstand'' @ [LF])"
    by code_simp
  have unknown: "strip (''Ally'' @ TAB # (''Verbuendeter'' @ [LF])) \<noteq> [] \<and>
      ''Ally'' @ TAB # (''Verbuendeter'' @ [LF]) = ''Ally'' @ TAB # (''Verbuendeter'' @ [LF]) \<and>
      TAB \<notin> set ''Ally'' \<and> TAB \<notin> set (''Verbuendeter'' @ [LF])"
    by code_simp
  have two: "strip (''Item'' @ TAB # (''Gegen'' @ [TAB] @ ''stand'')) \<noteq> [] \<and>
      ''Item'' @ TAB # (''Gegen'' @ [TAB] @ ''stand'') = ''Item'' @ TAB # (''Gegen'' @ [TAB] @ ''stand'') \<and>
      TAB \<notin> set ''Item'' \<and> TAB \<in> set (''Gegen'' @ [TAB] @ ''stand'')"
    by code_simp
  have v1: "(if strip ''Item'' \<in> fst ` set [(''Item'', ''Item'')]
        then AList.update (strip ''Item'') (strip ('' Gegenstand'' @ [LF])) [(''Item'', ''Item'')]
        else [(''Item'', ''Item'')]) = [(''Item'', ''Gegenstand'')]"
    by code_simp
  have v2: "(if strip ''Ally'' \<in> fst ` set [(''Item'', ''Item'')]
        then AList.update (strip ''Ally'') (strip (''Verbuendeter'' @ [LF])) [(''Item'', ''Item'')]
        else [(''Item'', ''Item'')]) = [(''Item'', ''Item'')]"
    by code_simp
  from txt2json_line_cases [of "'' '' @ [LF]" "[(''Item'', ''Item'')]"] blank
  have r1: "txt2json_line [(''Item'', ''Item'')] ('' '' @ [LF]) = Inr [(''Item'', ''Item'')]"
    by blast
  from txt2json_line_cases [of "''Item Gegenstand'' @ [LF]" "[(''Item'', ''Item'')]"] notab
  have r2: "txt2json_line [(''Item'', ''Item'')] (''Item Gegenstand'' @ [LF]) =
     Inl (ValueError ''need more than 1 value to unpack'')"
    by blast
  from txt2json_line_cases [of "''Item'' @ TAB # ('' Gegenstand'' @ [LF])" "[(''Item'', ''Item'')]"
      "''Item''" "'' Gegenstand'' @ [LF]"] one
  have "txt2json_line [(''Item'', ''Item'')] (''Item'' @ TAB # ('' Gegenstand'' @ [LF])) =
     Inr (if strip ''Item'' \<in> fst ` set [(''Item'', ''Item'')]
        then AList.update (strip ''Item'') (strip ('' Gegenstand'' @ [LF])) [(''Item'', ''Item'')]
        else [(''Item'', ''Item'')])"
    by blast
  with v1 have r3: "txt2json_line [(''Item'', ''Item'')] (''Item'' @ TAB # ('' Gegenstand'' @ [LF])) =
     Inr [(''Item'', ''Gegenstand'')]"
    by simp
  from txt2json_line_cases [of "''Ally'' @ TAB # (''Verbuendeter'' @ [LF])" "[(''Item'', ''Item'')]"
      "''Ally''" "''Verbuendeter'' @ [LF]"] unknown
  have "txt2json_line [(''Item'', ''Item'')] (''Ally'' @ TAB # (''Verbuendeter'' @ [LF])) =
     Inr (if strip ''Ally'' \<in> fst ` set [(''Item'', ''Item'')]
        then AList.update (strip ''Ally'') (strip (''Verbuendeter'' @ [LF])) [(''Item'', ''Item'')]
        else [(''Item'', ''Item'')])"
    by blast
  with v2 have r4: "txt2json_line [(''Item'', ''Item'')] (''Ally'' @ TAB # (''Verbuendeter'' @ [LF])) =
     Inr [(''Item'', ''Item'')]"
    by simp
  from txt2json_line_cases [of "''Item'' @ TAB # (''Gegen'' @ [TAB] @ ''stand'')" "[(''Item'', ''Item'')]"
      "''Item''" "''Gegen'' @ [TAB] @ ''stand''"] two
  have r5: "txt2json_line [(''Item'', ''Item'')] (''Item'' @ TAB # (''Gegen'' @ [TAB] @ ''stand'')) =
     Inl (ValueError ''too many values to unpack'')"
    by blast
  from r1 r2 r3 r4 r5 show ?thesis by blast
qed

text \<open>
  The claim as stated fails: a line with a second tab is not split at its first tab into
  the code \<open>Item\<close> and a name holding a tab; unpacking the three pieces raises.
\<close>

theorem txt2json_second_tab_raises:
  "txt2json Python2 w_tabs ''traits.json'' ''traits.txt'' =
     (Some (ValueError ''too many values to unpack''), w_tabs) \<and>
   txt2json Python3 w_tabs ''traits.json'' ''traits.txt'' =
     (Some (ValueError ''too many values to unpack''), w_tabs)"
  by code_simp

lemma strip_snoc_space:
  assumes "isspace s"
  shows "strip (n @ [s]) = strip n"
proof (cases "\<forall>x\<in>set n. isspace x")
  case True
  have "\<forall>x\<in>set (n @ [s]). isspace x"
    using True assms by simp
  then have a: "dropWhile isspace (n @ [s]) = []"
    by (simp only: dropWhile_eq_Nil_conv)
  have b: "dropWhile isspace n = []"
    using True by (simp only: dropWhile_eq_Nil_conv)
  show ?thesis unfolding strip_def a b by simp
next
  case False
  then have c: "dropWhile isspace (n @ [s]) = dropWhile isspace n @ [s]"
    by auto
  show ?thesis unfolding strip_def c using assms by simp
qed

lemma isspace_LF: "isspace LF"
  by (simp add: isspace_def LF_def)

lemma universal_newlines_id: "CR \<notin> set s \<Longrightarrow> universal_newlines s = s"
  by (induction s rule: universal_newlines.induct) auto

lemma readlines_line:
  "LF \<notin> set b \<Longrightarrow> readlines (b @ LF # rest) = (b @ [LF]) # readlines rest"
  by (induction b) auto

lemma readlines_concat:
  "\<forall>l\<in>set ls. \<exists>b. l = b @ [LF] \<and> LF \<notin> set b \<Longrightarrow> readlines (concat ls) = ls"
proof (induction ls)
  case Nil
  then show ?case by simp
next
  case (Cons l ls)
  then obtain b where b: "l = b @ [LF]" "LF \<notin> set b" by auto
  from Cons have "readlines (concat ls) = ls" by simp
  with b show ?case by (simp add: readlines_line)
qed

lemma format_lines_ok:
  "\<forall>item\<in>set data. map_of item ''code'' \<noteq> None \<and> map_of item ''name'' \<noteq> None \<Longrightarrow>
   format_lines data out = (None, out @ concat (map line_of data))"
  by (induction data arbitrary: out)
    (auto simp: getitem_def line_of_def code_of_def name_of_def)

lemma update_fresh: "k \<notin> fst ` set d \<Longrightarrow> AList.update k v d = d @ [(k, v)]"
  by (induction d) auto

lemma code_name_dict_distinct:
  assumes "\<forall>item\<in>set data. map_of item ''code'' \<noteq> None \<and> map_of item ''name'' \<noteq> None"
    and "distinct (map fst d @ map code_of data)"
  shows "code_name_dict data d = Inr (d @ map (\<lambda>item. (code_of item, name_of item)) data)"
  using assms
proof (induction data arbitrary: d)
  case Nil
  then show ?case by simp
next
  case (Cons item data)
  from Cons.prems obtain c n where cn: "map_of item ''code'' = Some c" "map_of item ''name'' = Some n"
    by auto
  then have c: "code_of item = c" "name_of item = n"
    by (simp_all add: code_of_def name_of_def)
  from Cons.prems(2) c have fresh: "c \<notin> fst ` set d"
    by auto
  have "code_name_dict data (d @ [(c, n)]) =
      Inr ((d @ [(c, n)]) @ map (\<lambda>item. (code_of item, name_of item)) data)"
    using Cons.prems c by (intro Cons.IH) auto
  with cn c fresh show ?case
    by (simp add: getitem_def update_fresh)
qed

lemma txt2json_line_same:
  assumes "map_of d c = Some n" "plain c" "plain n"
  shows "txt2json_line d (c @ [TAB] @ n @ [LF]) = Inr d"
proof (cases "strip (c @ [TAB] @ n @ [LF]) = []")
  case True
  then show ?thesis by (simp add: txt2json_line_def)
next
  case False
  have tabs: "TAB \<notin> set c" "TAB \<notin> set (n @ [LF])"
    using assms by (simp_all add: plain_def TAB_def LF_def)
  have sp: "split_chr TAB (c @ [TAB] @ n @ [LF]) = [c, n @ [LF]]"
    using split_chr_two [OF tabs] by simp
  have sc: "strip c = c" using assms by (simp add: plain_def)
  have sn: "strip (n @ [LF]) = n"
    using assms strip_snoc_space [OF isspace_LF, of n] by (simp add: plain_def)
  show ?thesis
    unfolding txt2json_line_def using False sp sc sn assms(1)
    by (simp add: update_triv)
qed

lemma txt2json_lines_same:
  assumes "\<forall>item\<in>set items.
      map_of d (code_of item) = Some (name_of item) \<and> plain (code_of item) \<and> plain (name_of item)"
  shows "txt2json_lines d (map line_of items) = Inr d"
  using assms
proof (induction items)
  case Nil
  then show ?case by simp
next
  case (Cons item items)
  then have "txt2json_line d (line_of item) = Inr d"
    unfolding line_of_def by (intro txt2json_line_same) auto
  with Cons show ?case by simp
qed

lemma line_of_shape:
  assumes "plain (code_of item)" "plain (name_of item)"
  shows "\<exists>b. line_of item = b @ [LF] \<and> LF \<notin> set b" "CR \<notin> set (line_of item)"
proof -
  have "LF \<notin> set (code_of item @ [TAB] @ name_of item)"
    using assms by (simp add: plain_def TAB_def LF_def)
  moreover have "line_of item = (code_of item @ [TAB] @ name_of item) @ [LF]"
    by (simp add: line_of_def)
  ultimately show "\<exists>b. line_of item = b @ [LF] \<and> LF \<notin> set b"
    by blast
  show "CR \<notin> set (line_of item)"
    using assms by (simp add: plain_def line_of_def TAB_def LF_def CR_def)
qed

text \<open>
  C6, amended. Let the JSON file hold entries with \<open>code\<close> and \<open>name\<close>, with distinct
  codes, and with codes and names that are plain (no tab, no line break, no whitespace
  at either end), and let the text file be another file. Where the final \<open>data.sort()\<close>
  can order the entries, that is under Python 2, or with at most one entry, \<open>json2txt\<close>
  followed by \<open>txt2json\<close> on the text it wrote raises nothing and leaves in the JSON
  file exactly the code/name pairs of the original, names unchanged, sorted by code and
  then name. Under Python 3 with two or more entries the sort raises \<open>TypeError\<close> and the
  JSON file is not rewritten.
\<close>

theorem json2txt_txt2json_roundtrip:
  assumes rd: "read_json w path_json = Inr data"
    and fields: "\<forall>item\<in>set data. map_of item ''code'' \<noteq> None \<and> map_of item ''name'' \<noteq> None \<and>
        plain (code_of item) \<and> plain (name_of item)"
    and dist: "distinct (map code_of data)"
    and paths: "path_text \<noteq> path_json"
    and j2t: "json2txt w path_json path_text = (None, w1)"
  shows "(py = Python2 \<or> length data \<le> 1 \<longrightarrow>
      (\<exists>w2. txt2json py w1 path_json path_text = (None, w2) \<and>
         written w2 = written w1 @ [path_json] \<and>
         read_json w2 path_json =
           Inr [[(''code'', c), (''name'', n)].
                  (c, n) \<leftarrow> sort [(code_of item, name_of item). item \<leftarrow> data]])) \<and>
    (py = Python3 \<and> 2 \<le> length data \<longrightarrow>
      txt2json py w1 path_json path_text = (Some (TypeError dict_order_message), w1))"
proof -
  define content1 where "content1 = concat (map line_of data)"
  define pairs where "pairs = map (\<lambda>item. (code_of item, name_of item)) data"
  define out where "out = Json [[(''code'', c), (''name'', n)]. (c, n) \<leftarrow> sort pairs]"
  have fl: "format_lines data [] = (None, content1)"
    using format_lines_ok [of data "[]"] fields by (simp add: content1_def)
  from j2t rd fl have "write_file w path_text (Text content1) = Inr w1"
    by (auto simp: json2txt_def split: sum.splits)
  from write_file_result [OF this]
  have w1: "w1 = w\<lparr>nodes := AList.update path_text (File (Text content1)) (nodes w),
      written := written w @ [path_text]\<rparr>" .
  have node1: "map_of (nodes w1) path_json = Some (File (Json data))"
    unfolding w1 using read_json_File [OF rd] paths by (simp add: update_conv')
  then have rd1: "read_json w1 path_json = Inr data"
    by (simp add: read_json_def)
  have "CR \<notin> set content1"
    using fields line_of_shape(2) by (auto simp: content1_def)
  then have un: "universal_newlines content1 = content1"
    by (rule universal_newlines_id)
  have "readlines (concat (map line_of data)) = map line_of data"
    using fields line_of_shape(1) by (intro readlines_concat) auto
  then have "readlines (universal_newlines content1) = map line_of data"
    using un by (simp add: content1_def)
  then have rl: "read_lines w1 path_text = Inr (map line_of data)"
    unfolding w1 by (simp add: read_lines_def update_conv')
  have dict: "code_name_dict data [] = Inr pairs"
    using code_name_dict_distinct [of data "[]"] fields dist by (simp add: pairs_def)
  have "distinct (map fst pairs)"
    using dist by (simp add: pairs_def comp_def)
  then have "\<forall>item\<in>set data. map_of pairs (code_of item) = Some (name_of item)"
    by (auto simp: pairs_def)
  then have ls: "txt2json_lines pairs (map line_of data) = Inr pairs"
    using fields by (intro txt2json_lines_same) auto
  have len: "length pairs = length data"
    by (simp add: pairs_def)
  define w2 where "w2 = w1\<lparr>nodes := AList.update path_json (File out) (nodes w1),
      written := written w1 @ [path_json]\<rparr>"
  have wr: "write_file w1 path_json out = Inr w2"
    unfolding w2_def using node1 by (rule read_json_written)
  have rd2: "read_json w2 path_json =
      Inr [[(''code'', c), (''name'', n)]. (c, n) \<leftarrow> sort pairs]"
    unfolding w2_def out_def by (rule read_json_update)
  have log2: "written w2 = written w1 @ [path_json]"
    by (simp add: w2_def)
  show ?thesis
  proof (intro conjI impI)
    assume "py = Python2 \<or> length data \<le> 1"
    then have "sort_entries py pairs =
        Inr [[(''code'', c), (''name'', n)]. (c, n) \<leftarrow> sort pairs]"
      using len by (auto simp: sort_entries_def)
    then have "txt2json py w1 path_json path_text = (None, w2)"
      using rd1 dict rl ls wr by (simp add: txt2json_def out_def)
    with rd2 log2 show "\<exists>w2. txt2json py w1 path_json path_text = (None, w2) \<and>
         written w2 = written w1 @ [path_json] \<and>
         read_json w2 path_json =
           Inr [[(''code'', c), (''name'', n)].
                  (c, n) \<leftarrow> sort [(code_of item, name_of item). item \<leftarrow> data]]"
      unfolding pairs_def by blast
  next
    assume "py = Python3 \<and> 2 \<le> length data"
    then have "sort_entries py pairs = Inl (TypeError dict_order_message)"
      using len by (simp add: sort_entries_def)
    then show "txt2json py w1 path_json path_text = (Some (TypeError dict_order_message), w1)"
      using rd1 dict rl ls by (simp add: txt2json_def)
  qed
qed

theorem json2txt_txt2json_roundtrip_witness:
  "(\<exists>w2. txt2json Python2 (snd (json2txt w_round ''traits.json'' ''traits.txt''))
          ''traits.json'' ''traits.txt'' = (None, w2) \<and>
     read_json w2 ''traits.json'' =
       Inr [[(''code'', ''Ally''), (''name'', ''Verbuendeter'')],
            [(''code'', ''Item''), (''name'', ''Gegenstand'')]]) \<and>
   txt2json Python3 (snd (json2txt w_round ''traits.json'' ''traits.txt''))
          ''traits.json'' ''traits.txt'' =
     (Some (TypeError dict_order_message), snd (json2txt w_round ''traits.json'' ''traits.txt'')) \<and>
   (\<exists>w2. txt2json Python3 (snd (json2txt w_single ''traits.json'' ''traits.txt''))
          ''traits.json'' ''traits.txt'' = (None, w2) \<and>
     read_json w2 ''traits.json'' = Inr [[(''code'', ''Item''), (''name'', ''Gegenstand'')]])"
proof -
  have rd: "read_json w_round ''traits.json'' =
      Inr [[(''code'', ''Item''), (''name'', ''Gegenstand'')],
           [(''code'', ''Ally''), (''name'', ''Verbuendeter'')]]"
    by code_simp
  have fields: "\<forall>item\<in>set [[(''code'', ''Item''), (''name'', ''Gegenstand'')],
           [(''code'', ''Ally''), (''name'', ''Verbuendeter'')]].
      map_of item ''code'' \<noteq> None \<and> map_of item ''name'' \<noteq> None \<and>
        plain (code_of item) \<and> plain (name_of item)"
    by code_simp
  have dist: "distinct (map code_of [[(''code'', ''Item''), (''name'', ''Gegenstand'')],
           [(''code'', ''Ally''), (''name'', ''Verbuendeter'')]])"
    by code_simp
  have paths: "''traits.txt'' \<noteq> ''traits.json''"
    by simp
  have j2t: "json2txt w_round ''traits.json'' ''traits.txt'' =
      (None, snd (json2txt w_round ''traits.json'' ''traits.txt''))"
    by code_simp
  have srt: "[[(''code'', c), (''name'', n)].
       (c, n) \<leftarrow> sort [(code_of item, name_of item).
          item \<leftarrow> [[(''code'', ''Item''), (''name'', ''Gegenstand'')],
                    [(''code'', ''Ally''), (''name'', ''Verbuendeter'')]]]] =
      [[(''code'', ''Ally''), (''name'', ''Verbuendeter'')],
       [(''code'', ''Item''), (''name'', ''Gegenstand'')]]"
    by code_simp
  have two: "2 \<le> length [[(''code'', ''Item''), (''name'', ''Gegenstand'')],
           [(''code'', ''Ally''), (''name'', ''Verbuendeter'')]]"
    by simp
  from json2txt_txt2json_roundtrip [OF rd fields dist paths j2t, of Python2] srt
  have r2: "\<exists>w2. txt2json Python2 (snd (json2txt w_round ''traits.json'' ''traits.txt''))
          ''traits.json'' ''traits.txt'' = (None, w2) \<and>
     read_json w2 ''traits.json'' =
       Inr [[(''code'', ''Ally''), (''name'', ''Verbuendeter'')],
            [(''code'', ''Item''), (''name'', ''Gegenstand'')]]"
    by auto
  from json2txt_txt2json_roundtrip [OF rd fields dist paths j2t, of Python3] two
  have r3: "txt2json Python3 (snd (json2txt w_round ''traits.json'' ''traits.txt''))
          ''traits.json'' ''traits.txt'' =
     (Some (TypeError dict_order_message), snd (json2txt w_round ''traits.json'' ''traits.txt''))"
    by blast
  have rd1: "read_json w_single ''traits.json'' =
      Inr [[(''code'', ''Item''), (''name'', ''Gegenstand'')]]"
    by code_simp
  have fields1: "\<forall>item\<in>set [[(''code'', ''Item''), (''name'', ''Gegenstand'')]].
      map_of item ''code'' \<noteq> None \<and> map_of item ''name'' \<noteq> None \<and>
        plain (code_of item) \<and> plain (name_of item)"
    by code_simp
  have dist1: "distinct (map code_of [[(''code'', ''Item''), (''name'', ''Gegenstand'')]])"
    by code_simp
  have j2t1: "json2txt w_single ''traits.json'' ''traits.txt'' =
      (None, snd (json2txt w_single ''traits.json'' ''traits.txt''))"
    by code_simp
  have srt1: "[[(''code'', c), (''name'', n)].
       (c, n) \<leftarrow> sort [(code_of item, name_of item).
          item \<leftarrow> [[(''code'', ''Item''), (''name'', ''Gegenstand'')]]]] =
      [[(''code'', ''Item''), (''name'', ''Gegenstand'')]]"
    by code_simp
  have one: "length [[(''code'', ''Item''), (''name'', ''Gegenstand'')]] \<le> 1"
    by simp
  from json2txt_txt2json_roundtrip [OF rd1 fields1 dist1 paths j2t1, of Python3] srt1 one
  have r1: "\<exists>w2. txt2json Python3 (snd (json2txt w_single ''traits.json'' ''traits.txt''))
          ''traits.json'' ''traits.txt'' = (None, w2) \<and>
     read_json w2 ''traits.json'' = Inr [[(''code'', ''Item''), (''name'', ''Gegenstand'')]]"
    by auto
  from r2 r3 r1 show ?thesis
    by blast
qed

text \<open>
  The claim as stated fails, under either interpreter: \<open>txt2json\<close> strips what it reads,
  so a name with a leading space does not come back unchanged.
\<close>

theorem roundtrip_strips_name:
  "read_json w_pad ''traits.json'' = Inr [[(''code'', ''Item''), (''name'', '' Gegenstand'')]] \<and>
   fst (json2txt w_pad ''traits.json'' ''traits.txt'') = None \<and>
   fst (txt2json Python2 (snd (json2txt w_pad ''traits.json'' ''traits.txt''))
          ''traits.json'' ''traits.txt'') = None \<and>
   read_json (snd (txt2json Python2 (snd (json2txt w_pad ''traits.json'' ''traits.txt''))
          ''traits.json'' ''traits.txt'')) ''traits.json'' =
     Inr [[(''code'', ''Item''), (''name'', ''Gegenstand'')]] \<and>
   fst (txt2json Python3 (snd (json2txt w_pad ''traits.json'' ''traits.txt''))
          ''traits.json'' ''traits.txt'') = None \<and>
   read_json (snd (txt2json Python3 (snd (json2txt w_pad ''traits.json'' ''traits.txt''))
          ''traits.json'' ''traits.txt'')) ''traits.json'' =
     Inr [[(''code'', ''Item''), (''name'', ''Gegenstand'')]]"
  by code_simp

end
